theory Spec2Isabelle
  imports Main "HOL-Library.Sublist"
begin

section \<open>JavaScript values reaching the AI tool executor\<close>

text \<open>
  The tool \<open>AI_TOOL_EXECUTOR\<close> of \<^verbatim>\<open>server/tools/ai-executor.ts\<close> reads the fields of
  \<^verbatim>\<open>aiResponse.object\<close>, an untyped object decoded from the generation backend's answer.
  Its fields are JSON data, or absent. A value is therefore one of the JSON shapes, or
  \<open>JUndefined\<close> for what JavaScript reads from a property that is not there.

  \<^item> A string is the list of its code units, each a \<open>char\<close>.
  \<^item> The program never computes with a number: it only converts one to a string or tests it
    in a condition. A number is represented by its canonical rendering, the text that
    \<^verbatim>\<open>String(n)\<close> returns (\<open>''0''\<close> for both zeros, \<open>''NaN''\<close>, \<open>''Infinity''\<close>,
    \<open>''-Infinity''\<close>, \<open>''1.5''\<close>, ...).
  \<^item> An object is the list of its own properties in enumeration order; a property is read
    from the first pair that has its key. No value of a property is a function, since JSON
    has none.
\<close>

datatype jsval =
    JUndefined
  | JNull
  | JBool bool
  | JNum string
  | JStr string
  | JArr "jsval list"
  | JObj "(string \<times> jsval) list"

text \<open>The truth value JavaScript gives a value in a condition, in \<^verbatim>\<open>!x\<close> and in
  \<^verbatim>\<open>x || y\<close>: \<^verbatim>\<open>undefined\<close>, \<^verbatim>\<open>null\<close>, \<^verbatim>\<open>false\<close>, zero, \<^verbatim>\<open>NaN\<close> and the empty
  string are falsy, everything else (every array and object too) is truthy.\<close>

fun truthy :: "jsval \<Rightarrow> bool" where
  "truthy JUndefined = False"
| "truthy JNull = False"
| "truthy (JBool b) = b"
| "truthy (JNum s) = (s \<noteq> ''0'' \<and> s \<noteq> ''NaN'')"
| "truthy (JStr s) = (s \<noteq> [])"
| "truthy (JArr xs) = True"
| "truthy (JObj kvs) = True"

text \<open>\<^verbatim>\<open>a || b\<close>: the left operand when it is truthy, else the right one.\<close>

definition or_else :: "jsval \<Rightarrow> jsval \<Rightarrow> jsval" where
  "or_else a b = (if truthy a then a else b)"

text \<open>\<^verbatim>\<open>o?.k\<close> for the property names the program reads (none of them is a property of a
  string, an array or a prototype): \<^verbatim>\<open>undefined\<close> when \<open>o\<close> is \<^verbatim>\<open>undefined\<close> or
  \<^verbatim>\<open>null\<close>, and when \<open>o\<close> has no such property.\<close>

fun get_prop :: "jsval \<Rightarrow> string \<Rightarrow> jsval" where
  "get_prop (JObj kvs) k = (case map_of kvs k of None \<Rightarrow> JUndefined | Some v \<Rightarrow> v)"
| "get_prop v k = JUndefined"

subsection \<open>Thrown values\<close>

text \<open>A thrown value (or the reason of a rejected promise): an instance of \<^verbatim>\<open>Error\<close>,
  with the value its \<^verbatim>\<open>message\<close> property holds, or any other value. The message of
  \<^verbatim>\<open>new Error(text)\<close> is a string, but a message can be assigned any value, and line 194
  reads it as it is.\<close>

datatype thrown = ErrorInstance jsval | NonError jsval

text \<open>The \<^verbatim>\<open>TypeError\<close> of a conversion to a primitive value that finds no method to
  call, with the message V8 gives it.\<close>

definition cannot_convert :: thrown where
  "cannot_convert = ErrorInstance (JStr ''Cannot convert object to primitive value'')"

subsection \<open>\<^verbatim>\<open>String(v)\<close>\<close>

text \<open>\<^verbatim>\<open>Array.prototype.join\<close> on strings already converted.\<close>

fun join_js :: "string \<Rightarrow> string list \<Rightarrow> string" where
  "join_js sep [] = []"
| "join_js sep [x] = x"
| "join_js sep (x # y # ys) = x @ sep @ join_js sep (y # ys)"

text \<open>The conversions of the elements of an array, from left to right: the first one that
  throws ends the conversion of the array.\<close>

fun convert_all :: "(thrown + string) list \<Rightarrow> thrown + string list" where
  "convert_all [] = Inr []"
| "convert_all (Inl e # rest) = Inl e"
| "convert_all (Inr s # rest) =
     (case convert_all rest of Inl e \<Rightarrow> Inl e | Inr ss \<Rightarrow> Inr (s # ss))"

text \<open>\<^verbatim>\<open>String(v)\<close>, \<open>Inl\<close> of what it throws or \<open>Inr\<close> of the string.
  \<^item> An absent value becomes the text \<open>undefined\<close>, not the empty string.
  \<^item> An array is its elements joined by commas, \<^verbatim>\<open>undefined\<close> and \<^verbatim>\<open>null\<close> elements
    giving the empty string.
  \<^item> An object is converted by the \<^verbatim>\<open>toString\<close> it finds. Without an own property of
    that name it finds \<^verbatim>\<open>Object.prototype.toString\<close>, which gives \<open>[object Object]\<close>.
    With one, it finds a value that is not a function, and no \<^verbatim>\<open>valueOf\<close> gives a
    primitive value either (an own one is not a function, the inherited one returns the
    object): the conversion throws a \<^verbatim>\<open>TypeError\<close>.\<close>

fun js_String :: "jsval \<Rightarrow> thrown + string" where
  "js_String JUndefined = Inr ''undefined''"
| "js_String JNull = Inr ''null''"
| "js_String (JBool b) = Inr (if b then ''true'' else ''false'')"
| "js_String (JNum s) = Inr s"
| "js_String (JStr s) = Inr s"
| "js_String (JArr xs) =
     (case convert_all
             (map (\<lambda>x. case x of JUndefined \<Rightarrow> Inr [] | JNull \<Rightarrow> Inr [] | _ \<Rightarrow> js_String x) xs)
      of Inl e \<Rightarrow> Inl e
       | Inr ss \<Rightarrow> Inr (join_js '','' ss))"
| "js_String (JObj kvs) =
     (case map_of kvs ''toString'' of
        None \<Rightarrow> Inr ''[object Object]''
      | Some v \<Rightarrow> Inl cannot_convert)"

text \<open>\<^verbatim>\<open>s.includes(t)\<close>: \<open>t\<close> occurs in \<open>s\<close> at some position.\<close>

fun includes_js :: "string \<Rightarrow> string \<Rightarrow> bool" where
  "includes_js [] t = (t = [])"
| "includes_js (c # s) t = (prefix t (c # s) \<or> includes_js s t)"

subsection \<open>\<^verbatim>\<open>JSON.stringify\<close> with one argument\<close>

definition hex_digit :: "nat \<Rightarrow> char" where
  "hex_digit n = ''0123456789abcdef'' ! (n mod 16)"

definition quote_char :: "char \<Rightarrow> string" where
  "quote_char c =
     (if c = CHR 0x08 then [CHR 0x5C, CHR ''b'']
      else if c = CHR 0x09 then [CHR 0x5C, CHR ''t'']
      else if c = CHR 0x0A then [CHR 0x5C, CHR ''n'']
      else if c = CHR 0x0C then [CHR 0x5C, CHR ''f'']
      else if c = CHR 0x0D then [CHR 0x5C, CHR ''r'']
      else if c = CHR 0x22 then [CHR 0x5C, CHR 0x22]
      else if c = CHR 0x5C then [CHR 0x5C, CHR 0x5C]
      else if (of_char c :: nat) < 32
        then [CHR 0x5C, CHR ''u'', CHR ''0'', CHR ''0'',
              hex_digit (of_char c div 16), hex_digit (of_char c mod 16)]
      else [c])"

definition quote_js :: "string \<Rightarrow> string" where
  "quote_js s = CHR 0x22 # concat (map quote_char s) @ [CHR 0x22]"

text \<open>The serialisation of a value, \<open>None\<close> where \<^verbatim>\<open>JSON.stringify\<close> returns
  \<^verbatim>\<open>undefined\<close>. A number that is not finite is written \<open>null\<close>; in an array an
  \<^verbatim>\<open>undefined\<close> element is written \<open>null\<close>; in an object a property whose value is
  \<^verbatim>\<open>undefined\<close> is left out. A property named \<open>toJSON\<close> is called only when it is a
  function, so it changes nothing here.\<close>

fun serialize :: "jsval \<Rightarrow> string option" where
  "serialize JUndefined = None"
| "serialize JNull = Some ''null''"
| "serialize (JBool b) = Some (if b then ''true'' else ''false'')"
| "serialize (JNum s) =
     Some (if s = ''NaN'' \<or> s = ''Infinity'' \<or> s = ''-Infinity'' then ''null'' else s)"
| "serialize (JStr s) = Some (quote_js s)"
| "serialize (JArr xs) =
     Some (''['' @ join_js '',''
             (map (\<lambda>x. case serialize x of None \<Rightarrow> ''null'' | Some s \<Rightarrow> s) xs) @ '']'')"
| "serialize (JObj kvs) =
     Some (''{'' @ join_js '',''
             (concat (map (\<lambda>(k, v). case serialize v of None \<Rightarrow> []
                                      | Some s \<Rightarrow> [quote_js k @ '':'' @ s]) kvs)) @ ''}'')"

definition JSON_stringify :: "jsval \<Rightarrow> jsval" where
  "JSON_stringify v = (case serialize v of None \<Rightarrow> JUndefined | Some s \<Rightarrow> JStr s)"

section \<open>The two capabilities and the invocation record\<close>

text \<open>The argument of \<^verbatim>\<open>env.TOOLS.DECO_TOOL_RUN_TOOL\<close> (lines 155-164): the tool, whose
  field \<^verbatim>\<open>execute\<close> is the source text, and its input.\<close>

record tool_def =
  tool_name :: string
  tool_description :: string
  tool_inputSchema :: jsval
  tool_outputSchema :: jsval
  tool_execute :: string

record run_request =
  req_tool :: tool_def
  req_input :: jsval

text \<open>What \<^verbatim>\<open>DECO_TOOL_RUN_TOOL\<close> resolves to: an object read only through
  \<^verbatim>\<open>toolResult.error\<close> and \<^verbatim>\<open>toolResult.result\<close>, each \<open>JUndefined\<close> when absent.\<close>

record tool_outcome =
  res_result :: jsval
  res_error :: jsval

text \<open>The object \<^verbatim>\<open>execute\<close> returns (lines 171-177, 180-186, 189-195).\<close>

record invocation_record =
  reasoning :: string
  toolUri :: string
  generatedInput :: jsval
  result :: jsval
  error :: jsval

text \<open>The environment. The request sent to \<^verbatim>\<open>env.AI_GATEWAY.AI_GENERATE_OBJECT\<close>
  (lines 63-128) is the fixed prompt, model, temperature and schema around
  \<^verbatim>\<open>context.query\<close>, so a generation backend is its answer to each query: the
  \<^verbatim>\<open>object\<close> of its response, or a thrown value. An execution capability answers a
  request with an outcome, or throws.\<close>

record env =
  AI_GENERATE_OBJECT :: "string \<Rightarrow> thrown + jsval"
  DECO_TOOL_RUN_TOOL :: "run_request \<Rightarrow> thrown + tool_outcome"

section \<open>The entry point\<close>

text \<open>\<^verbatim>\<open>execute\<close> of \<^verbatim>\<open>createAIToolExecutorTool\<close> (lines 61-197). The result is what
  the call resolves to, \<open>Inl\<close> of the value it throws or \<open>Inr\<close> of the record it returns,
  paired with the requests the execution capability received, in order. The four
  \<^verbatim>\<open>String\<close> conversions of lines 131, 132, 135 and 137 run in that order, before the two
  checks and outside the \<^verbatim>\<open>try\<close>: what one of them throws leaves the function. The
  \<^verbatim>\<open>console.log\<close> and \<^verbatim>\<open>console.error\<close> calls only print.\<close>

definition execute :: "env \<Rightarrow> string \<Rightarrow> (thrown + invocation_record) \<times> run_request list" where
  "execute env query =
     (case AI_GENERATE_OBJECT env query of
        Inl thrown_by_backend \<Rightarrow> (Inl thrown_by_backend, [])
      | Inr object \<Rightarrow>
     (case js_String (get_prop object ''toolName'') of
        Inl type_error \<Rightarrow> (Inl type_error, [])
      | Inr toolName \<Rightarrow>
     (case js_String (get_prop object ''toolDescription'') of
        Inl type_error \<Rightarrow> (Inl type_error, [])
      | Inr toolDescription \<Rightarrow>
     let inputSchema = or_else (get_prop object ''inputSchema'') (JObj []);
         outputSchema = or_else (get_prop object ''outputSchema'') (JObj [])
     in
     (case js_String (get_prop object ''executeCode'') of
        Inl type_error \<Rightarrow> (Inl type_error, [])
      | Inr executeCode \<Rightarrow>
     let generatedInput = or_else (get_prop object ''input'') (JObj []) in
     (case js_String (get_prop object ''reasoning'') of
        Inl type_error \<Rightarrow> (Inl type_error, [])
      | Inr converted \<Rightarrow>
          let reasoning = converted in
          if executeCode = [] \<or> toolName = [] then
            (Inl (ErrorInstance (JStr ''Failed to generate tool code'')), [])
          else if \<not> includes_js executeCode ''export default async function'' then
            (Inl (ErrorInstance (JStr
              (''Generated code is not in the correct ES module format. Code must start with 'export default async function (input, ctx) {''
               @ [CHR 0x27]))),
             [])
          else
            let request =
                  \<lparr>req_tool = \<lparr>tool_name = toolName,
                                tool_description = toolDescription,
                                tool_inputSchema = inputSchema,
                                tool_outputSchema = outputSchema,
                                tool_execute = executeCode\<rparr>,
                   req_input = generatedInput\<rparr>
            in
            (case DECO_TOOL_RUN_TOOL env request of
               Inr toolResult \<Rightarrow>
                 if truthy (res_error toolResult) then
                   (Inr \<lparr>reasoning = reasoning,
                         toolUri = ''DYNAMIC::'' @ toolName,
                         generatedInput = generatedInput,
                         result = JUndefined,
                         error = JSON_stringify (res_error toolResult)\<rparr>,
                    [request])
                 else
                   (Inr \<lparr>reasoning = reasoning,
                         toolUri = ''DYNAMIC::'' @ toolName,
                         generatedInput = generatedInput,
                         result = res_result toolResult,
                         error = JUndefined\<rparr>,
                    [request])
             | Inl err \<Rightarrow>
                 (Inr \<lparr>reasoning = reasoning,
                       toolUri = ''DYNAMIC::'' @ toolName,
                       generatedInput = generatedInput,
                       result = JUndefined,
                       error = (case err of ErrorInstance message \<Rightarrow> message
                                | NonError v \<Rightarrow> JStr ''Unknown error occurred'')\<rparr>,
                  [request])))))))"

section \<open>Fixtures\<close>

text \<open>The entry-point declaration that the prompt (lines 80, 88) and the message of the
  format failure (line 148) require generated code to start with.\<close>

definition required_prefix :: string where
  "required_prefix = ''export default async function (input, ctx) {''"

text \<open>A mocked environment: the generation backend answers every query with \<open>reply\<close>,
  the execution capability answers every request with \<open>answer\<close> (an outcome, or a throw).\<close>

definition mock_env :: "jsval \<Rightarrow> (thrown + tool_outcome) \<Rightarrow> env" where
  "mock_env reply answer =
     \<lparr>AI_GENERATE_OBJECT = (\<lambda>query. Inr reply), DECO_TOOL_RUN_TOOL = (\<lambda>request. answer)\<rparr>"

text \<open>The reply of the specification's scenario A.\<close>

definition scenario_A_reply :: jsval where
  "scenario_A_reply =
     JObj [(''toolName'', JStr ''LIST''),
           (''executeCode'',
              JStr ''export default async function (input, ctx) { return {todos:[]} }''),
           (''toolDescription'', JStr ''d''),
           (''inputSchema'', JObj []),
           (''outputSchema'', JObj []),
           (''input'', JObj []),
           (''reasoning'', JStr ''r'')]"

text \<open>The outcome \<^verbatim>\<open>{result: {todos: []}}\<close> of scenario A.\<close>

definition scenario_A_outcome :: tool_outcome where
  "scenario_A_outcome = \<lparr>res_result = JObj [(''todos'', JArr [])], res_error = JUndefined\<rparr>"

text \<open>The request \<^verbatim>\<open>execute\<close> builds from the reply of scenario A.\<close>

definition scenario_A_request :: run_request where
  "scenario_A_request =
     \<lparr>req_tool = \<lparr>tool_name = ''LIST'', tool_description = ''d'',
                   tool_inputSchema = JObj [], tool_outputSchema = JObj [],
                   tool_execute =
                     ''export default async function (input, ctx) { return {todos:[]} }''\<rparr>,
      req_input = JObj []\<rparr>"

text \<open>Scenario B: the reply of scenario A with the code \<^verbatim>\<open>function foo(){}\<close>, which has
  no default export.\<close>

definition scenario_B_reply :: jsval where
  "scenario_B_reply =
     JObj [(''toolName'', JStr ''LIST''),
           (''executeCode'', JStr ''function foo(){}''),
           (''toolDescription'', JStr ''d''),
           (''inputSchema'', JObj []),
           (''outputSchema'', JObj []),
           (''input'', JObj []),
           (''reasoning'', JStr ''r'')]"

text \<open>Scenario D: the reply of scenario A without its two schemas.\<close>

definition scenario_D_reply :: jsval where
  "scenario_D_reply =
     JObj [(''toolName'', JStr ''LIST''),
           (''executeCode'',
              JStr ''export default async function (input, ctx) { return {todos:[]} }''),
           (''toolDescription'', JStr ''d''),
           (''input'', JObj []),
           (''reasoning'', JStr ''r'')]"

text \<open>A reply whose \<^verbatim>\<open>executeCode\<close> is the empty string.\<close>

definition empty_code_reply :: jsval where
  "empty_code_reply =
     JObj [(''toolName'', JStr ''LIST''),
           (''executeCode'', JStr []),
           (''toolDescription'', JStr ''d''),
           (''inputSchema'', JObj []),
           (''outputSchema'', JObj []),
           (''input'', JObj []),
           (''reasoning'', JStr ''r'')]"

text \<open>The message of the format failure (line 148).\<close>

definition format_message :: string where
  "format_message =
     ''Generated code is not in the correct ES module format. Code must start with 'export default async function (input, ctx) {''
     @ [CHR 0x27]"

section \<open>Substring search\<close>

lemma includes_js_iff: "includes_js s t \<longleftrightarrow> (\<exists>p q. s = p @ t @ q)"
proof (induction s)
  case Nil
  then show ?case by auto
next
  case (Cons c s)
  show ?case
  proof
    assume "includes_js (c # s) t"
    then consider "prefix t (c # s)" | "includes_js s t" by auto
    then show "\<exists>p q. c # s = p @ t @ q"
    proof cases
      case 1
      then obtain q where "c # s = t @ q" by (auto simp: prefix_def)
      then have "c # s = [] @ t @ q" by simp
      then show ?thesis by blast
    next
      case 2
      with Cons.IH obtain p q where "s = p @ t @ q" by blast
      then have "c # s = (c # p) @ t @ q" by simp
      then show ?thesis by blast
    qed
  next
    assume "\<exists>p q. c # s = p @ t @ q"
    then obtain p q where pq: "c # s = p @ t @ q" by blast
    show "includes_js (c # s) t"
    proof (cases p)
      case Nil
      with pq have "prefix t (c # s)" by (simp add: prefix_def)
      then show ?thesis by simp
    next
      case (Cons a p')
      with pq have "s = p' @ t @ q" by simp
      with Cons.IH have "includes_js s t" by blast
      then show ?thesis by simp
    qed
  qed
qed

lemma includes_js_shorter: "includes_js s (t @ u) \<Longrightarrow> includes_js s t"
proof -
  assume "includes_js s (t @ u)"
  then obtain p q where "s = p @ (t @ u) @ q" unfolding includes_js_iff by blast
  then have "s = p @ t @ (u @ q)" by simp
  then show ?thesis unfolding includes_js_iff by blast
qed

lemma required_prefix_has_marker:
  "includes_js s required_prefix \<Longrightarrow> includes_js s ''export default async function''"
proof -
  have "required_prefix = ''export default async function'' @ '' (input, ctx) {''"
    by (simp add: required_prefix_def)
  then show "includes_js s required_prefix \<Longrightarrow> includes_js s ''export default async function''"
    using includes_js_shorter by metis
qed

lemma includes_js_nonempty: "includes_js s t \<Longrightarrow> t \<noteq> [] \<Longrightarrow> s \<noteq> []"
  by (cases s) auto

lemma format_message_has_prefix: "includes_js format_message required_prefix"
  by (simp add: format_message_def required_prefix_def)

section \<open>What a conversion throws\<close>

lemma convert_all_Inl: "convert_all xs = Inl e \<Longrightarrow> Inl e \<in> set xs"
  by (induction xs rule: convert_all.induct) (auto split: sum.splits)

lemma js_String_throws: "js_String v = Inl e \<Longrightarrow> e = cannot_convert"
proof (induction v arbitrary: e rule: js_String.induct)
  case (6 xs)
  let ?f = "\<lambda>x. case x of JUndefined \<Rightarrow> Inr [] | JNull \<Rightarrow> Inr [] | _ \<Rightarrow> js_String x"
  from "6.prems" have "convert_all (map ?f xs) = Inl e"
    by (simp split: sum.splits)
  then have "Inl e \<in> set (map ?f xs)"
    by (rule convert_all_Inl)
  then obtain x where x: "x \<in> set xs" "?f x = Inl e"
    by auto
  then have "js_String x = Inl e" "x \<noteq> JUndefined" "x \<noteq> JNull"
    by (auto split: jsval.splits)
  with "6.IH" x(1) show ?case
    by (cases x) auto
next
  case (7 kvs)
  then show ?case by (simp split: option.splits)
qed simp_all

section \<open>The paths through the entry point\<close>

lemma execute_backend_throws:
  "AI_GENERATE_OBJECT env query = Inl t \<Longrightarrow> execute env query = (Inl t, [])"
  by (simp add: execute_def)

lemma execute_unconvertible:
  assumes "AI_GENERATE_OBJECT env query = Inr object"
    and "js_String (get_prop object ''toolName'') = Inl e
         \<or> js_String (get_prop object ''toolDescription'') = Inl e
         \<or> js_String (get_prop object ''executeCode'') = Inl e
         \<or> js_String (get_prop object ''reasoning'') = Inl e"
  shows "execute env query = (Inl cannot_convert, [])"
  using assms
  by (auto simp add: execute_def Let_def split: sum.splits dest: js_String_throws)

lemma execute_missing:
  assumes "AI_GENERATE_OBJECT env query = Inr object"
    and "js_String (get_prop object ''toolName'') = Inr name"
    and "js_String (get_prop object ''toolDescription'') = Inr description"
    and "js_String (get_prop object ''executeCode'') = Inr code"
    and "js_String (get_prop object ''reasoning'') = Inr why"
    and "code = [] \<or> name = []"
  shows "execute env query = (Inl (ErrorInstance (JStr ''Failed to generate tool code'')), [])"
  using assms by (auto simp add: execute_def Let_def)

lemma execute_bad_format:
  assumes "AI_GENERATE_OBJECT env query = Inr object"
    and "js_String (get_prop object ''toolName'') = Inr name"
    and "js_String (get_prop object ''toolDescription'') = Inr description"
    and "js_String (get_prop object ''executeCode'') = Inr code"
    and "js_String (get_prop object ''reasoning'') = Inr why"
    and "code \<noteq> []" and "name \<noteq> []"
    and "\<not> includes_js code ''export default async function''"
  shows "execute env query = (Inl (ErrorInstance (JStr format_message)), [])"
  using assms by (simp add: execute_def Let_def format_message_def)

lemma execute_validated:
  assumes "AI_GENERATE_OBJECT env query = Inr object"
    and "js_String (get_prop object ''toolName'') = Inr name"
    and "js_String (get_prop object ''toolDescription'') = Inr description"
    and "js_String (get_prop object ''executeCode'') = Inr code"
    and "js_String (get_prop object ''reasoning'') = Inr why"
    and "code \<noteq> []" and "name \<noteq> []"
    and "includes_js code ''export default async function''"
    and "request =
      \<lparr>req_tool = \<lparr>tool_name = name, tool_description = description,
                    tool_inputSchema = or_else (get_prop object ''inputSchema'') (JObj []),
                    tool_outputSchema = or_else (get_prop object ''outputSchema'') (JObj []),
                    tool_execute = code\<rparr>,
        req_input = or_else (get_prop object ''input'') (JObj [])\<rparr>"
  shows "execute env query =
     (Inr \<lparr>reasoning = why,
           toolUri = ''DYNAMIC::'' @ name,
           generatedInput = or_else (get_prop object ''input'') (JObj []),
           result = (case DECO_TOOL_RUN_TOOL env request of
                       Inr toolResult \<Rightarrow>
                         if truthy (res_error toolResult) then JUndefined
                         else res_result toolResult
                     | Inl err \<Rightarrow> JUndefined),
           error = (case DECO_TOOL_RUN_TOOL env request of
                      Inr toolResult \<Rightarrow>
                        if truthy (res_error toolResult)
                        then JSON_stringify (res_error toolResult) else JUndefined
                    | Inl err \<Rightarrow> (case err of ErrorInstance message \<Rightarrow> message
                                 | NonError v \<Rightarrow> JStr ''Unknown error occurred''))\<rparr>,
      [request])"
  using assms by (simp add: execute_def Let_def split: sum.split)

text \<open>With a reply in hand, what the call throws is the failure of one of the two checks
  of lines 141 and 146 or the \<^verbatim>\<open>TypeError\<close> of a conversion, and it is thrown before any
  call of the execution capability.\<close>

lemma execute_throws_cases:
  assumes "AI_GENERATE_OBJECT env query = Inr object"
    and "fst (execute env query) = Inl t"
  shows "snd (execute env query) = []
       \<and> (t = ErrorInstance (JStr ''Failed to generate tool code'')
          \<or> t = ErrorInstance (JStr format_message)
          \<or> t = cannot_convert)"
  using assms
  by (auto simp add: execute_def Let_def format_message_def
      split: sum.splits if_splits dest: js_String_throws)

lemma execute_called_returns:
  "snd (execute env query) \<noteq> [] \<Longrightarrow> \<exists>r. fst (execute env query) = Inr r"
  by (auto simp add: execute_def Let_def split: sum.splits if_splits)

text \<open>Two replies with the same \<^verbatim>\<open>toolName\<close>, \<^verbatim>\<open>toolDescription\<close>,
  \<^verbatim>\<open>executeCode\<close> and \<^verbatim>\<open>reasoning\<close> make the call throw the same value, or neither
  makes it throw, whatever their schemas and inputs and whatever the two execution
  capabilities do.\<close>

lemma execute_throw_depends_on_texts:
  assumes "AI_GENERATE_OBJECT env query = Inr object"
    and "AI_GENERATE_OBJECT env' query' = Inr object'"
    and "get_prop object' ''toolName'' = get_prop object ''toolName''"
    and "get_prop object' ''toolDescription'' = get_prop object ''toolDescription''"
    and "get_prop object' ''executeCode'' = get_prop object ''executeCode''"
    and "get_prop object' ''reasoning'' = get_prop object ''reasoning''"
  shows "fst (execute env' query') = Inl t \<longleftrightarrow> fst (execute env query) = Inl t"
  using assms
  by (auto simp add: execute_def Let_def split: sum.splits if_splits)

section \<open>The mocked environment\<close>

lemma mock_env_generates: "AI_GENERATE_OBJECT (mock_env reply answer) query = Inr reply"
  by (simp add: mock_env_def)

lemma mock_env_runs: "DECO_TOOL_RUN_TOOL (mock_env reply answer) request = answer"
  by (simp add: mock_env_def)

lemma scenario_A_texts:
  "js_String (get_prop scenario_A_reply ''toolName'') = Inr ''LIST''"
  "js_String (get_prop scenario_A_reply ''toolDescription'') = Inr ''d''"
  "js_String (get_prop scenario_A_reply ''executeCode'')
     = Inr ''export default async function (input, ctx) { return {todos:[]} }''"
  "js_String (get_prop scenario_A_reply ''reasoning'') = Inr ''r''"
  by (simp_all add: scenario_A_reply_def)

lemma scenario_A_validated:
  "''export default async function (input, ctx) { return {todos:[]} }'' \<noteq> []"
  "''LIST'' \<noteq> []"
  "includes_js ''export default async function (input, ctx) { return {todos:[]} }''
     ''export default async function''"
  by simp_all

lemma scenario_A_builds_request:
  "scenario_A_request =
      \<lparr>req_tool = \<lparr>tool_name = ''LIST'', tool_description = ''d'',
                    tool_inputSchema = or_else (get_prop scenario_A_reply ''inputSchema'') (JObj []),
                    tool_outputSchema = or_else (get_prop scenario_A_reply ''outputSchema'') (JObj []),
                    tool_execute =
                      ''export default async function (input, ctx) { return {todos:[]} }''\<rparr>,
        req_input = or_else (get_prop scenario_A_reply ''input'') (JObj [])\<rparr>"
  by (simp add: scenario_A_request_def scenario_A_reply_def or_else_def)

lemma scenario_A_calls:
  "snd (execute (mock_env scenario_A_reply answer) query) = [scenario_A_request]"
  by (simp add: execute_def Let_def mock_env_def scenario_A_reply_def scenario_A_request_def
      or_else_def split: sum.split)

lemma execute_call_outcome:
  assumes "AI_GENERATE_OBJECT env query = Inr object"
    and "snd (execute env query) = [request]"
  shows "\<exists>r. fst (execute env query) = Inr r
           \<and> result r = (case DECO_TOOL_RUN_TOOL env request of
                           Inr toolResult \<Rightarrow>
                             if truthy (res_error toolResult) then JUndefined
                             else res_result toolResult
                         | Inl err \<Rightarrow> JUndefined)
           \<and> error r = (case DECO_TOOL_RUN_TOOL env request of
                          Inr toolResult \<Rightarrow>
                            if truthy (res_error toolResult)
                            then JSON_stringify (res_error toolResult) else JUndefined
                        | Inl err \<Rightarrow> (case err of ErrorInstance message \<Rightarrow> message
                                     | NonError v \<Rightarrow> JStr ''Unknown error occurred''))"
  using assms by (auto simp add: execute_def Let_def split: sum.splits if_splits)

lemma execute_record_fields:
  assumes "AI_GENERATE_OBJECT env query = Inr object"
    and "fst (execute env query) = Inr r"
  shows "(result r = JUndefined \<or> error r = JUndefined)
       \<and> js_String (get_prop object ''reasoning'') = Inr (reasoning r)
       \<and> (\<exists>name. js_String (get_prop object ''toolName'') = Inr name
                 \<and> toolUri r = ''DYNAMIC::'' @ name)"
  using assms by (auto simp add: execute_def Let_def split: sum.splits if_splits)

section \<open>Claims\<close>

text \<open>
  C1, as stated, fails twice. Code that holds \<open>export default async function\<close> without
  the rest of the required prefix passes the check of line 146, which looks for those four
  words only, and is executed. And an empty \<^verbatim>\<open>executeCode\<close> stops at the check of line
  141, whose message, \<open>Failed to generate tool code\<close>, does not hold the required prefix.
\<close>

theorem code_without_prefix_counterexample:
  "\<not> includes_js ''export default async function run() { return 1 }'' required_prefix
   \<and> execute
     (mock_env
        (JObj [(''toolName'', JStr ''LIST''),
               (''executeCode'', JStr ''export default async function run() { return 1 }''),
               (''toolDescription'', JStr ''d''),
               (''inputSchema'', JObj []),
               (''outputSchema'', JObj []),
               (''input'', JObj []),
               (''reasoning'', JStr ''r'')])
        (Inr scenario_A_outcome))
     ''list todos'' =
     (Inr \<lparr>reasoning = ''r'', toolUri = ''DYNAMIC::LIST'', generatedInput = JObj [],
           result = JObj [(''todos'', JArr [])], error = JUndefined\<rparr>,
      [\<lparr>req_tool = \<lparr>tool_name = ''LIST'', tool_description = ''d'',
                    tool_inputSchema = JObj [], tool_outputSchema = JObj [],
                    tool_execute = ''export default async function run() { return 1 }''\<rparr>,
        req_input = JObj []\<rparr>])
   \<and> \<not> includes_js [] required_prefix
   \<and> execute
     (mock_env
        (JObj [(''toolName'', JStr ''LIST''),
               (''executeCode'', JStr []),
               (''toolDescription'', JStr ''d''),
               (''inputSchema'', JObj []),
               (''outputSchema'', JObj []),
               (''input'', JObj []),
               (''reasoning'', JStr ''r'')])
        (Inr scenario_A_outcome))
     ''list todos'' =
     (Inl (ErrorInstance (JStr ''Failed to generate tool code'')), [])
   \<and> \<not> includes_js ''Failed to generate tool code'' required_prefix"
  by (simp add: execute_def Let_def mock_env_def scenario_A_outcome_def or_else_def
      required_prefix_def)

text \<open>
  C1, amended. For every reply whose \<^verbatim>\<open>toolName\<close>, \<^verbatim>\<open>toolDescription\<close>,
  \<^verbatim>\<open>executeCode\<close> and \<^verbatim>\<open>reasoning\<close> \<^verbatim>\<open>String\<close> converts, and whose converted
  \<^verbatim>\<open>executeCode\<close> does not contain \<open>export default async function\<close>, the entry point
  throws an \<^verbatim>\<open>Error\<close> and the execution capability receives no call. When the converted
  \<^verbatim>\<open>executeCode\<close> and \<^verbatim>\<open>toolName\<close> are both non-empty, the message of that
  \<^verbatim>\<open>Error\<close> is the format message, which contains the exact required prefix
  \<open>export default async function (input, ctx) {\<close>; when one of them is empty, the message
  is \<open>Failed to generate tool code\<close>.
\<close>

theorem code_without_marker_aborts:
  assumes "AI_GENERATE_OBJECT env query = Inr object"
    and "js_String (get_prop object ''toolName'') = Inr name"
    and "js_String (get_prop object ''toolDescription'') = Inr description"
    and "js_String (get_prop object ''executeCode'') = Inr code"
    and "js_String (get_prop object ''reasoning'') = Inr why"
    and "\<not> includes_js code ''export default async function''"
  shows "execute env query =
           (Inl (ErrorInstance (JStr (if code = [] \<or> name = []
                                      then ''Failed to generate tool code''
                                      else format_message))), [])
       \<and> includes_js format_message required_prefix"
proof (cases "code = [] \<or> name = []")
  case True
  from execute_missing [OF assms(1-5) True] True format_message_has_prefix
  show ?thesis by simp
next
  case False
  then have "code \<noteq> []" "name \<noteq> []" by simp_all
  from execute_bad_format [OF assms(1-5) this assms(6)] False format_message_has_prefix
  show ?thesis by simp
qed

theorem code_without_marker_aborts_witness:
  "AI_GENERATE_OBJECT (mock_env scenario_B_reply (Inr scenario_A_outcome)) ''list todos''
     = Inr scenario_B_reply
   \<and> js_String (get_prop scenario_B_reply ''toolName'') = Inr ''LIST''
   \<and> js_String (get_prop scenario_B_reply ''toolDescription'') = Inr ''d''
   \<and> js_String (get_prop scenario_B_reply ''executeCode'') = Inr ''function foo(){}''
   \<and> js_String (get_prop scenario_B_reply ''reasoning'') = Inr ''r''
   \<and> \<not> includes_js ''function foo(){}'' ''export default async function''
   \<and> execute (mock_env scenario_B_reply (Inr scenario_A_outcome)) ''list todos''
     = (Inl (ErrorInstance (JStr format_message)), [])
   \<and> includes_js format_message required_prefix
   \<and> AI_GENERATE_OBJECT (mock_env empty_code_reply (Inr scenario_A_outcome)) ''list todos''
     = Inr empty_code_reply
   \<and> js_String (get_prop empty_code_reply ''toolName'') = Inr ''LIST''
   \<and> js_String (get_prop empty_code_reply ''toolDescription'') = Inr ''d''
   \<and> js_String (get_prop empty_code_reply ''executeCode'') = Inr []
   \<and> js_String (get_prop empty_code_reply ''reasoning'') = Inr ''r''
   \<and> \<not> includes_js [] ''export default async function''
   \<and> execute (mock_env empty_code_reply (Inr scenario_A_outcome)) ''list todos''
     = (Inl (ErrorInstance (JStr ''Failed to generate tool code'')), [])"
proof -
  let ?B = "mock_env scenario_B_reply (Inr scenario_A_outcome)"
  let ?Z = "mock_env empty_code_reply (Inr scenario_A_outcome)"
  have b1: "AI_GENERATE_OBJECT ?B ''list todos'' = Inr scenario_B_reply"
    by (rule mock_env_generates)
  have b2: "js_String (get_prop scenario_B_reply ''toolName'') = Inr ''LIST''"
    and b3: "js_String (get_prop scenario_B_reply ''toolDescription'') = Inr ''d''"
    and b4: "js_String (get_prop scenario_B_reply ''executeCode'') = Inr ''function foo(){}''"
    and b5: "js_String (get_prop scenario_B_reply ''reasoning'') = Inr ''r''"
    by (simp_all add: scenario_B_reply_def)
  have b6: "\<not> includes_js ''function foo(){}'' ''export default async function''"
    by simp
  from code_without_marker_aborts [OF b1 b2 b3 b4 b5 b6]
  have b7: "execute ?B ''list todos'' = (Inl (ErrorInstance (JStr format_message)), [])"
    and b8: "includes_js format_message required_prefix"
    by simp_all
  have z1: "AI_GENERATE_OBJECT ?Z ''list todos'' = Inr empty_code_reply"
    by (rule mock_env_generates)
  have z2: "js_String (get_prop empty_code_reply ''toolName'') = Inr ''LIST''"
    and z3: "js_String (get_prop empty_code_reply ''toolDescription'') = Inr ''d''"
    and z4: "js_String (get_prop empty_code_reply ''executeCode'') = Inr []"
    and z5: "js_String (get_prop empty_code_reply ''reasoning'') = Inr ''r''"
    by (simp_all add: empty_code_reply_def)
  have z6: "\<not> includes_js [] ''export default async function''"
    by simp
  from code_without_marker_aborts [OF z1 z2 z3 z4 z5 z6]
  have z7: "execute ?Z ''list todos''
              = (Inl (ErrorInstance (JStr ''Failed to generate tool code'')), [])"
    by simp
  from b1 b2 b3 b4 b5 b6 b7 b8 z1 z2 z3 z4 z5 z6 z7 show ?thesis by blast
qed

text \<open>
  C2 at a reply that has no \<^verbatim>\<open>toolName\<close>: \<^verbatim>\<open>String(undefined)\<close> of line 131 is the
  non-empty text \<open>undefined\<close>, so \<^verbatim>\<open>!toolName\<close> of line 141 is false; the code passes
  both checks, the execution capability is called once with a tool named \<open>undefined\<close>,
  and a record is returned.
\<close>

theorem missing_toolName_is_executed:
  "execute
     (mock_env
        (JObj [(''executeCode'',
                  JStr ''export default async function (input, ctx) { return {todos:[]} }''),
               (''toolDescription'', JStr ''d''),
               (''inputSchema'', JObj []),
               (''outputSchema'', JObj []),
               (''input'', JObj []),
               (''reasoning'', JStr ''r'')])
        (Inr scenario_A_outcome))
     ''list todos'' =
     (Inr \<lparr>reasoning = ''r'', toolUri = ''DYNAMIC::undefined'', generatedInput = JObj [],
           result = JObj [(''todos'', JArr [])], error = JUndefined\<rparr>,
      [\<lparr>req_tool = \<lparr>tool_name = ''undefined'', tool_description = ''d'',
                    tool_inputSchema = JObj [], tool_outputSchema = JObj [],
                    tool_execute =
                      ''export default async function (input, ctx) { return {todos:[]} }''\<rparr>,
        req_input = JObj []\<rparr>])"
  by (simp add: execute_def Let_def mock_env_def scenario_A_outcome_def or_else_def)

text \<open>
  C3, as stated, fails twice. A reply whose \<^verbatim>\<open>reasoning\<close> is an object with an own
  property \<open>toString\<close> makes \<^verbatim>\<open>String\<close> of line 137 throw a \<^verbatim>\<open>TypeError\<close>, which
  leaves the entry point and is neither of the two precondition failures. And when the
  execution capability throws an \<^verbatim>\<open>Error\<close> whose \<^verbatim>\<open>message\<close> holds the number 42,
  line 194 puts that number, not a string, into the record's \<^verbatim>\<open>error\<close>.
\<close>

theorem third_throw_counterexample:
  "execute
     (mock_env
        (JObj [(''toolName'', JStr ''LIST''),
               (''executeCode'',
                  JStr ''export default async function (input, ctx) { return {todos:[]} }''),
               (''toolDescription'', JStr ''d''),
               (''inputSchema'', JObj []),
               (''outputSchema'', JObj []),
               (''input'', JObj []),
               (''reasoning'', JObj [(''toString'', JStr ''x'')])])
        (Inr scenario_A_outcome))
     ''list todos'' =
     (Inl (ErrorInstance (JStr ''Cannot convert object to primitive value'')), [])
   \<and> ''Cannot convert object to primitive value'' \<noteq> ''Failed to generate tool code''
   \<and> ''Cannot convert object to primitive value'' \<noteq> format_message
   \<and> execute (mock_env scenario_A_reply (Inl (ErrorInstance (JNum ''42'')))) ''list todos'' =
     (Inr \<lparr>reasoning = ''r'', toolUri = ''DYNAMIC::LIST'', generatedInput = JObj [],
           result = JUndefined, error = JNum ''42''\<rparr>,
      [scenario_A_request])"
  by (simp add: execute_def Let_def mock_env_def scenario_A_reply_def scenario_A_request_def
      or_else_def cannot_convert_def format_message_def)

text \<open>
  C3, amended. With a reply in hand: when the reply passes the conversions and the two
  checks and the execution capability, called with the request built from it, throws (a
  synchronous throw and a rejected promise are both caught by the \<^verbatim>\<open>try\<close> of line 152),
  the entry point returns a record with no \<^verbatim>\<open>result\<close> whose \<^verbatim>\<open>error\<close> is the
  \<^verbatim>\<open>message\<close> of a thrown \<^verbatim>\<open>Error\<close> (a string whenever that message is one) and the
  string \<open>Unknown error occurred\<close> for any other thrown value. Once the capability has been
  called the entry point returns a record and does not throw. Whatever the entry point
  throws is thrown before any call of the capability, and is the failure of one of the two
  precondition checks or the \<^verbatim>\<open>TypeError\<close> of a \<^verbatim>\<open>String\<close> conversion.
\<close>

theorem execution_failure_never_throws:
  assumes "AI_GENERATE_OBJECT env query = Inr object"
  shows "(js_String (get_prop object ''toolName'') = Inr name \<longrightarrow>
          js_String (get_prop object ''toolDescription'') = Inr description \<longrightarrow>
          js_String (get_prop object ''executeCode'') = Inr code \<longrightarrow>
          js_String (get_prop object ''reasoning'') = Inr why \<longrightarrow>
          code \<noteq> [] \<longrightarrow> name \<noteq> [] \<longrightarrow>
          includes_js code ''export default async function'' \<longrightarrow>
          request =
            \<lparr>req_tool = \<lparr>tool_name = name, tool_description = description,
                          tool_inputSchema = or_else (get_prop object ''inputSchema'') (JObj []),
                          tool_outputSchema = or_else (get_prop object ''outputSchema'') (JObj []),
                          tool_execute = code\<rparr>,
              req_input = or_else (get_prop object ''input'') (JObj [])\<rparr> \<longrightarrow>
          DECO_TOOL_RUN_TOOL env request = Inl err \<longrightarrow>
            execute env query =
              (Inr \<lparr>reasoning = why,
                    toolUri = ''DYNAMIC::'' @ name,
                    generatedInput = or_else (get_prop object ''input'') (JObj []),
                    result = JUndefined,
                    error = (case err of ErrorInstance message \<Rightarrow> message
                             | NonError v \<Rightarrow> JStr ''Unknown error occurred'')\<rparr>,
               [request]))
       \<and> (snd (execute env query) \<noteq> [] \<longrightarrow> (\<exists>r. fst (execute env query) = Inr r))
       \<and> (fst (execute env query) = Inl t \<longrightarrow>
            snd (execute env query) = []
            \<and> (t = ErrorInstance (JStr ''Failed to generate tool code'')
               \<or> t = ErrorInstance (JStr format_message)
               \<or> t = cannot_convert))"
proof (intro conjI impI)
  assume "js_String (get_prop object ''toolName'') = Inr name"
    and "js_String (get_prop object ''toolDescription'') = Inr description"
    and "js_String (get_prop object ''executeCode'') = Inr code"
    and "js_String (get_prop object ''reasoning'') = Inr why"
    and "code \<noteq> []" and "name \<noteq> []"
    and "includes_js code ''export default async function''"
    and "request =
            \<lparr>req_tool = \<lparr>tool_name = name, tool_description = description,
                          tool_inputSchema = or_else (get_prop object ''inputSchema'') (JObj []),
                          tool_outputSchema = or_else (get_prop object ''outputSchema'') (JObj []),
                          tool_execute = code\<rparr>,
              req_input = or_else (get_prop object ''input'') (JObj [])\<rparr>"
    and threw: "DECO_TOOL_RUN_TOOL env request = Inl err"
  from execute_validated [OF assms this(1-8)] threw
  show "execute env query =
              (Inr \<lparr>reasoning = why,
                    toolUri = ''DYNAMIC::'' @ name,
                    generatedInput = or_else (get_prop object ''input'') (JObj []),
                    result = JUndefined,
                    error = (case err of ErrorInstance message \<Rightarrow> message
                             | NonError v \<Rightarrow> JStr ''Unknown error occurred'')\<rparr>,
               [request])"
    by simp
next
  assume "snd (execute env query) \<noteq> []"
  then show "\<exists>r. fst (execute env query) = Inr r"
    by (rule execute_called_returns)
next
  assume thrown: "fst (execute env query) = Inl t"
  from execute_throws_cases [OF assms thrown]
  show "snd (execute env query) = []"
    and "t = ErrorInstance (JStr ''Failed to generate tool code'')
         \<or> t = ErrorInstance (JStr format_message)
         \<or> t = cannot_convert"
    by simp_all
qed

theorem execution_failure_never_throws_witness:
  "AI_GENERATE_OBJECT (mock_env scenario_A_reply (Inl (ErrorInstance (JStr ''boom''))))
     ''list todos'' = Inr scenario_A_reply
   \<and> DECO_TOOL_RUN_TOOL (mock_env scenario_A_reply (Inl (ErrorInstance (JStr ''boom''))))
       scenario_A_request = Inl (ErrorInstance (JStr ''boom''))
   \<and> execute (mock_env scenario_A_reply (Inl (ErrorInstance (JStr ''boom'')))) ''list todos'' =
       (Inr \<lparr>reasoning = ''r'', toolUri = ''DYNAMIC::LIST'', generatedInput = JObj [],
             result = JUndefined, error = JStr ''boom''\<rparr>,
        [scenario_A_request])
   \<and> AI_GENERATE_OBJECT (mock_env scenario_A_reply (Inl (NonError (JStr ''network down''))))
       ''list todos'' = Inr scenario_A_reply
   \<and> DECO_TOOL_RUN_TOOL (mock_env scenario_A_reply (Inl (NonError (JStr ''network down''))))
       scenario_A_request = Inl (NonError (JStr ''network down''))
   \<and> execute (mock_env scenario_A_reply (Inl (NonError (JStr ''network down''))))
       ''list todos'' =
       (Inr \<lparr>reasoning = ''r'', toolUri = ''DYNAMIC::LIST'', generatedInput = JObj [],
             result = JUndefined, error = JStr ''Unknown error occurred''\<rparr>,
        [scenario_A_request])
   \<and> snd (execute (mock_env scenario_A_reply (Inl (ErrorInstance (JStr ''boom''))))
          ''list todos'') \<noteq> []
   \<and> (\<exists>r. fst (execute (mock_env scenario_A_reply (Inl (ErrorInstance (JStr ''boom''))))
               ''list todos'') = Inr r)
   \<and> AI_GENERATE_OBJECT (mock_env empty_code_reply (Inr scenario_A_outcome)) ''list todos''
     = Inr empty_code_reply
   \<and> fst (execute (mock_env empty_code_reply (Inr scenario_A_outcome)) ''list todos'')
     = Inl (ErrorInstance (JStr ''Failed to generate tool code''))
   \<and> snd (execute (mock_env empty_code_reply (Inr scenario_A_outcome)) ''list todos'') = []"
proof -
  let ?E = "mock_env scenario_A_reply (Inl (ErrorInstance (JStr ''boom'')))"
  let ?N = "mock_env scenario_A_reply (Inl (NonError (JStr ''network down'')))"
  let ?Z = "mock_env empty_code_reply (Inr scenario_A_outcome)"
  have e1: "AI_GENERATE_OBJECT ?E ''list todos'' = Inr scenario_A_reply"
    by (rule mock_env_generates)
  have e2: "DECO_TOOL_RUN_TOOL ?E scenario_A_request = Inl (ErrorInstance (JStr ''boom''))"
    by (rule mock_env_runs)
  from execution_failure_never_throws [OF e1, where name = "''LIST''" and description = "''d''"
      and code = "''export default async function (input, ctx) { return {todos:[]} }''"
      and why = "''r''" and request = scenario_A_request
      and err = "ErrorInstance (JStr ''boom'')"]
    scenario_A_texts scenario_A_validated scenario_A_builds_request e2
  have e3: "execute ?E ''list todos'' =
       (Inr \<lparr>reasoning = ''r'', toolUri = ''DYNAMIC::LIST'', generatedInput = JObj [],
             result = JUndefined, error = JStr ''boom''\<rparr>,
        [scenario_A_request])"
    by (simp add: scenario_A_reply_def or_else_def)
  have n1: "AI_GENERATE_OBJECT ?N ''list todos'' = Inr scenario_A_reply"
    by (rule mock_env_generates)
  have n2: "DECO_TOOL_RUN_TOOL ?N scenario_A_request = Inl (NonError (JStr ''network down''))"
    by (rule mock_env_runs)
  from execution_failure_never_throws [OF n1, where name = "''LIST''" and description = "''d''"
      and code = "''export default async function (input, ctx) { return {todos:[]} }''"
      and why = "''r''" and request = scenario_A_request
      and err = "NonError (JStr ''network down'')"]
    scenario_A_texts scenario_A_validated scenario_A_builds_request n2
  have n3: "execute ?N ''list todos'' =
       (Inr \<lparr>reasoning = ''r'', toolUri = ''DYNAMIC::LIST'', generatedInput = JObj [],
             result = JUndefined, error = JStr ''Unknown error occurred''\<rparr>,
        [scenario_A_request])"
    by (simp add: scenario_A_reply_def or_else_def)
  from e3 have e4: "snd (execute ?E ''list todos'') \<noteq> []"
    by simp
  from execution_failure_never_throws [OF e1] e4
  have e5: "\<exists>r. fst (execute ?E ''list todos'') = Inr r"
    by blast
  have z1: "AI_GENERATE_OBJECT ?Z ''list todos'' = Inr empty_code_reply"
    by (rule mock_env_generates)
  have z2: "fst (execute ?Z ''list todos'')
              = Inl (ErrorInstance (JStr ''Failed to generate tool code''))"
    by (simp add: execute_def Let_def mock_env_def empty_code_reply_def)
  from execution_failure_never_throws [OF z1] z2
  have z3: "snd (execute ?Z ''list todos'') = []"
    by blast
  from e1 e2 e3 n1 n2 n3 e4 e5 z1 z2 z3 show ?thesis by blast
qed

text \<open>
  C4, as stated, fails: when the execution capability throws the string \<open>network down\<close>
  itself, which is not an instance of \<^verbatim>\<open>Error\<close>, line 194 reports
  \<open>Unknown error occurred\<close>.
\<close>

theorem thrown_string_counterexample:
  "fst (execute (mock_env scenario_A_reply (Inl (NonError (JStr ''network down''))))
          ''list todos'') =
     Inr \<lparr>reasoning = ''r'', toolUri = ''DYNAMIC::LIST'', generatedInput = JObj [],
          result = JUndefined, error = JStr ''Unknown error occurred''\<rparr>
   \<and> JStr ''Unknown error occurred'' \<noteq> JStr ''network down''"
  by (simp add: execute_def Let_def mock_env_def scenario_A_reply_def or_else_def)

text \<open>
  C4, amended. When the execution capability, called with the request, throws an instance
  of \<^verbatim>\<open>Error\<close>, the entry point returns a record whose \<^verbatim>\<open>error\<close> is the message of
  that instance (so \<open>network down\<close> for \<^verbatim>\<open>new Error("network down")\<close>) and whose
  \<^verbatim>\<open>result\<close> is absent; when it throws any other value, \<^verbatim>\<open>error\<close> is
  \<open>Unknown error occurred\<close> and \<^verbatim>\<open>result\<close> is absent. In both cases the entry point
  does not throw.
\<close>

theorem thrown_error_is_reported:
  assumes "AI_GENERATE_OBJECT env query = Inr object"
    and "snd (execute env query) = [request]"
  shows "(DECO_TOOL_RUN_TOOL env request = Inl (ErrorInstance message) \<longrightarrow>
            (\<exists>r. fst (execute env query) = Inr r \<and> error r = message
                 \<and> result r = JUndefined))
       \<and> (DECO_TOOL_RUN_TOOL env request = Inl (NonError v) \<longrightarrow>
            (\<exists>r. fst (execute env query) = Inr r \<and> error r = JStr ''Unknown error occurred''
                 \<and> result r = JUndefined))"
  using execute_call_outcome [OF assms] by auto

theorem thrown_error_is_reported_witness:
  "AI_GENERATE_OBJECT (mock_env scenario_A_reply (Inl (ErrorInstance (JStr ''network down''))))
     ''list todos'' = Inr scenario_A_reply
   \<and> snd (execute (mock_env scenario_A_reply (Inl (ErrorInstance (JStr ''network down''))))
          ''list todos'') = [scenario_A_request]
   \<and> DECO_TOOL_RUN_TOOL
       (mock_env scenario_A_reply (Inl (ErrorInstance (JStr ''network down''))))
       scenario_A_request = Inl (ErrorInstance (JStr ''network down''))
   \<and> (\<exists>r. fst (execute
               (mock_env scenario_A_reply (Inl (ErrorInstance (JStr ''network down''))))
               ''list todos'') = Inr r
           \<and> error r = JStr ''network down'' \<and> result r = JUndefined)
   \<and> AI_GENERATE_OBJECT (mock_env scenario_A_reply (Inl (NonError (JNum ''503''))))
       ''list todos'' = Inr scenario_A_reply
   \<and> snd (execute (mock_env scenario_A_reply (Inl (NonError (JNum ''503''))))
          ''list todos'') = [scenario_A_request]
   \<and> DECO_TOOL_RUN_TOOL (mock_env scenario_A_reply (Inl (NonError (JNum ''503''))))
       scenario_A_request = Inl (NonError (JNum ''503''))
   \<and> (\<exists>r. fst (execute (mock_env scenario_A_reply (Inl (NonError (JNum ''503''))))
               ''list todos'') = Inr r
           \<and> error r = JStr ''Unknown error occurred'' \<and> result r = JUndefined)"
proof -
  let ?E = "mock_env scenario_A_reply (Inl (ErrorInstance (JStr ''network down'')))"
  let ?N = "mock_env scenario_A_reply (Inl (NonError (JNum ''503'')))"
  have e1: "AI_GENERATE_OBJECT ?E ''list todos'' = Inr scenario_A_reply"
    by (rule mock_env_generates)
  have e2: "snd (execute ?E ''list todos'') = [scenario_A_request]"
    by (rule scenario_A_calls)
  have e3: "DECO_TOOL_RUN_TOOL ?E scenario_A_request
              = Inl (ErrorInstance (JStr ''network down''))"
    by (rule mock_env_runs)
  have e4: "\<exists>r. fst (execute ?E ''list todos'') = Inr r
           \<and> error r = JStr ''network down'' \<and> result r = JUndefined"
    using thrown_error_is_reported [OF e1 e2] e3 by blast
  have n1: "AI_GENERATE_OBJECT ?N ''list todos'' = Inr scenario_A_reply"
    by (rule mock_env_generates)
  have n2: "snd (execute ?N ''list todos'') = [scenario_A_request]"
    by (rule scenario_A_calls)
  have n3: "DECO_TOOL_RUN_TOOL ?N scenario_A_request = Inl (NonError (JNum ''503''))"
    by (rule mock_env_runs)
  have n4: "\<exists>r. fst (execute ?N ''list todos'') = Inr r
           \<and> error r = JStr ''Unknown error occurred'' \<and> result r = JUndefined"
    using thrown_error_is_reported [OF n1 n2] n3 by blast
  from e1 e2 e3 e4 n1 n2 n3 n4 show ?thesis by blast
qed

text \<open>
  C5. With a reply in hand: in every record the entry point returns, \<^verbatim>\<open>result\<close> and
  \<^verbatim>\<open>error\<close> are never both set, \<^verbatim>\<open>reasoning\<close> is the converted reasoning of the reply
  and \<^verbatim>\<open>toolUri\<close> the prefixed tool name. For a reply that passes the conversions and the
  two checks, whatever the execution capability does with the request (it returns an
  outcome with or without an error, or it throws), the entry point returns such a record.
  And when one of the two precondition checks fails, the entry point throws, returns no
  record and has not called the capability.
\<close>

theorem record_invariants:
  assumes "AI_GENERATE_OBJECT env query = Inr object"
  shows "(fst (execute env query) = Inr r \<longrightarrow>
            (result r = JUndefined \<or> error r = JUndefined)
            \<and> js_String (get_prop object ''reasoning'') = Inr (reasoning r)
            \<and> (\<exists>n. js_String (get_prop object ''toolName'') = Inr n
                   \<and> toolUri r = ''DYNAMIC::'' @ n))
       \<and> (js_String (get_prop object ''toolName'') = Inr name \<longrightarrow>
          js_String (get_prop object ''toolDescription'') = Inr description \<longrightarrow>
          js_String (get_prop object ''executeCode'') = Inr code \<longrightarrow>
          js_String (get_prop object ''reasoning'') = Inr why \<longrightarrow>
          code \<noteq> [] \<longrightarrow> name \<noteq> [] \<longrightarrow>
          includes_js code ''export default async function'' \<longrightarrow>
          request =
            \<lparr>req_tool = \<lparr>tool_name = name, tool_description = description,
                          tool_inputSchema = or_else (get_prop object ''inputSchema'') (JObj []),
                          tool_outputSchema = or_else (get_prop object ''outputSchema'') (JObj []),
                          tool_execute = code\<rparr>,
              req_input = or_else (get_prop object ''input'') (JObj [])\<rparr> \<longrightarrow>
            (\<exists>r'. execute env query = (Inr r', [request])
                  \<and> reasoning r' = why
                  \<and> toolUri r' = ''DYNAMIC::'' @ name
                  \<and> (result r' = JUndefined \<or> error r' = JUndefined)))
       \<and> (js_String (get_prop object ''toolName'') = Inr name \<longrightarrow>
          js_String (get_prop object ''toolDescription'') = Inr description \<longrightarrow>
          js_String (get_prop object ''executeCode'') = Inr code \<longrightarrow>
          js_String (get_prop object ''reasoning'') = Inr why \<longrightarrow>
          code = [] \<or> name = [] \<or> \<not> includes_js code ''export default async function'' \<longrightarrow>
            (\<exists>t. execute env query = (Inl t, [])))"
proof (intro conjI impI)
  assume ret: "fst (execute env query) = Inr r"
  from execute_record_fields [OF assms ret]
  show "result r = JUndefined \<or> error r = JUndefined"
    and "js_String (get_prop object ''reasoning'') = Inr (reasoning r)"
    and "\<exists>n. js_String (get_prop object ''toolName'') = Inr n \<and> toolUri r = ''DYNAMIC::'' @ n"
    by simp_all
next
  assume "js_String (get_prop object ''toolName'') = Inr name"
    and "js_String (get_prop object ''toolDescription'') = Inr description"
    and "js_String (get_prop object ''executeCode'') = Inr code"
    and "js_String (get_prop object ''reasoning'') = Inr why"
    and "code \<noteq> []" and "name \<noteq> []"
    and "includes_js code ''export default async function''"
    and "request =
            \<lparr>req_tool = \<lparr>tool_name = name, tool_description = description,
                          tool_inputSchema = or_else (get_prop object ''inputSchema'') (JObj []),
                          tool_outputSchema = or_else (get_prop object ''outputSchema'') (JObj []),
                          tool_execute = code\<rparr>,
              req_input = or_else (get_prop object ''input'') (JObj [])\<rparr>"
  from execute_validated [OF assms this]
  show "\<exists>r'. execute env query = (Inr r', [request])
                  \<and> reasoning r' = why
                  \<and> toolUri r' = ''DYNAMIC::'' @ name
                  \<and> (result r' = JUndefined \<or> error r' = JUndefined)"
    by (auto split: sum.splits)
next
  assume texts: "js_String (get_prop object ''toolName'') = Inr name"
      "js_String (get_prop object ''toolDescription'') = Inr description"
      "js_String (get_prop object ''executeCode'') = Inr code"
      "js_String (get_prop object ''reasoning'') = Inr why"
    and failed: "code = [] \<or> name = [] \<or> \<not> includes_js code ''export default async function''"
  show "\<exists>t. execute env query = (Inl t, [])"
  proof (cases "code = [] \<or> name = []")
    case True
    from execute_missing [OF assms texts True] show ?thesis by blast
  next
    case False
    with failed have "code \<noteq> []" "name \<noteq> []"
      "\<not> includes_js code ''export default async function''"
      by simp_all
    from execute_bad_format [OF assms texts this] show ?thesis by blast
  qed
qed

theorem record_invariants_witness:
  "AI_GENERATE_OBJECT (mock_env scenario_A_reply (Inl (ErrorInstance (JStr ''boom''))))
     ''list todos'' = Inr scenario_A_reply
   \<and> (\<exists>r'. execute (mock_env scenario_A_reply (Inl (ErrorInstance (JStr ''boom''))))
             ''list todos'' = (Inr r', [scenario_A_request])
          \<and> reasoning r' = ''r'' \<and> toolUri r' = ''DYNAMIC::LIST''
          \<and> (result r' = JUndefined \<or> error r' = JUndefined))
   \<and> AI_GENERATE_OBJECT
       (mock_env scenario_A_reply (Inr \<lparr>res_result = JNull, res_error = JStr ''denied''\<rparr>))
       ''list todos'' = Inr scenario_A_reply
   \<and> (\<exists>r'. execute
             (mock_env scenario_A_reply (Inr \<lparr>res_result = JNull, res_error = JStr ''denied''\<rparr>))
             ''list todos'' = (Inr r', [scenario_A_request])
          \<and> reasoning r' = ''r'' \<and> toolUri r' = ''DYNAMIC::LIST''
          \<and> (result r' = JUndefined \<or> error r' = JUndefined))
   \<and> AI_GENERATE_OBJECT (mock_env scenario_A_reply (Inr scenario_A_outcome)) ''list todos''
     = Inr scenario_A_reply
   \<and> fst (execute (mock_env scenario_A_reply (Inr scenario_A_outcome)) ''list todos'') =
       Inr \<lparr>reasoning = ''r'', toolUri = ''DYNAMIC::LIST'', generatedInput = JObj [],
            result = JObj [(''todos'', JArr [])], error = JUndefined\<rparr>
   \<and> js_String (get_prop scenario_A_reply ''reasoning'')
     = Inr (reasoning
         \<lparr>reasoning = ''r'', toolUri = ''DYNAMIC::LIST'', generatedInput = JObj [],
            result = JObj [(''todos'', JArr [])], error = JUndefined\<rparr>)
   \<and> AI_GENERATE_OBJECT (mock_env scenario_B_reply (Inr scenario_A_outcome)) ''list todos''
     = Inr scenario_B_reply
   \<and> \<not> includes_js ''function foo(){}'' ''export default async function''
   \<and> (\<exists>t. execute (mock_env scenario_B_reply (Inr scenario_A_outcome)) ''list todos''
          = (Inl t, []))"
proof -
  let ?E = "mock_env scenario_A_reply (Inl (ErrorInstance (JStr ''boom'')))"
  let ?D = "mock_env scenario_A_reply (Inr \<lparr>res_result = JNull, res_error = JStr ''denied''\<rparr>)"
  let ?A = "mock_env scenario_A_reply (Inr scenario_A_outcome)"
  let ?B = "mock_env scenario_B_reply (Inr scenario_A_outcome)"
  let ?rec = "\<lparr>reasoning = ''r'', toolUri = ''DYNAMIC::LIST'', generatedInput = JObj [],
            result = JObj [(''todos'', JArr [])], error = JUndefined\<rparr>"
  have e1: "AI_GENERATE_OBJECT ?E ''list todos'' = Inr scenario_A_reply"
    by (rule mock_env_generates)
  from record_invariants [OF e1, where name = "''LIST''" and description = "''d''"
      and code = "''export default async function (input, ctx) { return {todos:[]} }''"
      and why = "''r''" and request = scenario_A_request]
    scenario_A_texts scenario_A_validated scenario_A_builds_request
  have e2: "\<exists>r'. execute ?E ''list todos'' = (Inr r', [scenario_A_request])
          \<and> reasoning r' = ''r'' \<and> toolUri r' = ''DYNAMIC::LIST''
          \<and> (result r' = JUndefined \<or> error r' = JUndefined)"
    by simp
  have d1: "AI_GENERATE_OBJECT ?D ''list todos'' = Inr scenario_A_reply"
    by (rule mock_env_generates)
  from record_invariants [OF d1, where name = "''LIST''" and description = "''d''"
      and code = "''export default async function (input, ctx) { return {todos:[]} }''"
      and why = "''r''" and request = scenario_A_request]
    scenario_A_texts scenario_A_validated scenario_A_builds_request
  have d2: "\<exists>r'. execute ?D ''list todos'' = (Inr r', [scenario_A_request])
          \<and> reasoning r' = ''r'' \<and> toolUri r' = ''DYNAMIC::LIST''
          \<and> (result r' = JUndefined \<or> error r' = JUndefined)"
    by simp
  have a1: "AI_GENERATE_OBJECT ?A ''list todos'' = Inr scenario_A_reply"
    by (rule mock_env_generates)
  have a2: "fst (execute ?A ''list todos'') = Inr ?rec"
    by (simp add: execute_def Let_def mock_env_def scenario_A_reply_def scenario_A_outcome_def
        or_else_def)
  from record_invariants [OF a1, where r = ?rec] a2
  have a3: "js_String (get_prop scenario_A_reply ''reasoning'') = Inr (reasoning ?rec)"
    by blast
  have b1: "AI_GENERATE_OBJECT ?B ''list todos'' = Inr scenario_B_reply"
    by (rule mock_env_generates)
  have b2: "js_String (get_prop scenario_B_reply ''toolName'') = Inr ''LIST''"
    and b3: "js_String (get_prop scenario_B_reply ''toolDescription'') = Inr ''d''"
    and b4: "js_String (get_prop scenario_B_reply ''executeCode'') = Inr ''function foo(){}''"
    and b5: "js_String (get_prop scenario_B_reply ''reasoning'') = Inr ''r''"
    by (simp_all add: scenario_B_reply_def)
  have b6: "\<not> includes_js ''function foo(){}'' ''export default async function''"
    by simp
  from record_invariants [OF b1, where name = "''LIST''" and description = "''d''"
      and code = "''function foo(){}''" and why = "''r''"] b2 b3 b4 b5 b6
  have b7: "\<exists>t. execute ?B ''list todos'' = (Inl t, [])"
    by blast
  from e1 e2 d1 d2 a1 a2 a3 b1 b6 b7 show ?thesis by blast
qed

text \<open>
  C6, as stated, fails: a schema that is present and is not an object, here the string
  \<open>none\<close>, is truthy, so \<^verbatim>\<open>||\<close> of line 133 keeps it and the execution capability
  receives it as the tool's \<^verbatim>\<open>inputSchema\<close>; it is not replaced by \<^verbatim>\<open>{}\<close>.
\<close>

theorem schema_not_object_counterexample:
  "snd (execute
     (mock_env
        (JObj [(''toolName'', JStr ''LIST''),
               (''executeCode'',
                  JStr ''export default async function (input, ctx) { return {todos:[]} }''),
               (''toolDescription'', JStr ''d''),
               (''inputSchema'', JStr ''none''),
               (''outputSchema'', JObj []),
               (''input'', JObj []),
               (''reasoning'', JStr ''r'')])
        (Inr scenario_A_outcome))
     ''list todos'') =
     [\<lparr>req_tool = \<lparr>tool_name = ''LIST'', tool_description = ''d'',
                   tool_inputSchema = JStr ''none'', tool_outputSchema = JObj [],
                   tool_execute =
                     ''export default async function (input, ctx) { return {todos:[]} }''\<rparr>,
       req_input = JObj []\<rparr>]
   \<and> JStr ''none'' \<noteq> JObj []"
  by (simp add: execute_def Let_def mock_env_def or_else_def)

text \<open>
  C6, amended. For every reply that passes the conversions and the two checks,
  \<^verbatim>\<open>inputSchema\<close> and \<^verbatim>\<open>outputSchema\<close> are replaced by \<^verbatim>\<open>{}\<close> when the field is falsy
  (missing, \<^verbatim>\<open>null\<close>, \<^verbatim>\<open>false\<close>, zero, \<^verbatim>\<open>NaN\<close> or the empty string) and are
  otherwise handed to the execution capability unchanged, object or not. The schemas never
  abort the operation: two replies that differ in their schemas only throw the same value,
  or neither throws. A reply that omits both schemas and passes the conversions and the two
  checks reaches the execution capability with both schemas equal to \<^verbatim>\<open>{}\<close>, and a
  record is returned.
\<close>

theorem schemas_default_when_falsy:
  assumes "AI_GENERATE_OBJECT env query = Inr object"
  shows "(js_String (get_prop object ''toolName'') = Inr name \<longrightarrow>
          js_String (get_prop object ''toolDescription'') = Inr description \<longrightarrow>
          js_String (get_prop object ''executeCode'') = Inr code \<longrightarrow>
          js_String (get_prop object ''reasoning'') = Inr why \<longrightarrow>
          code \<noteq> [] \<longrightarrow> name \<noteq> [] \<longrightarrow>
          includes_js code ''export default async function'' \<longrightarrow>
            snd (execute env query) =
              [\<lparr>req_tool =
                  \<lparr>tool_name = name, tool_description = description,
                   tool_inputSchema =
                     (if truthy (get_prop object ''inputSchema'')
                      then get_prop object ''inputSchema'' else JObj []),
                   tool_outputSchema =
                     (if truthy (get_prop object ''outputSchema'')
                      then get_prop object ''outputSchema'' else JObj []),
                   tool_execute = code\<rparr>,
                req_input = or_else (get_prop object ''input'') (JObj [])\<rparr>]
            \<and> (\<exists>r. fst (execute env query) = Inr r)
            \<and> (get_prop object ''inputSchema'' = JUndefined \<longrightarrow>
               get_prop object ''outputSchema'' = JUndefined \<longrightarrow>
                 snd (execute env query) =
                   [\<lparr>req_tool =
                       \<lparr>tool_name = name, tool_description = description,
                        tool_inputSchema = JObj [], tool_outputSchema = JObj [],
                        tool_execute = code\<rparr>,
                     req_input = or_else (get_prop object ''input'') (JObj [])\<rparr>]))
       \<and> (AI_GENERATE_OBJECT env' query' = Inr object' \<longrightarrow>
          get_prop object' ''toolName'' = get_prop object ''toolName'' \<longrightarrow>
          get_prop object' ''toolDescription'' = get_prop object ''toolDescription'' \<longrightarrow>
          get_prop object' ''executeCode'' = get_prop object ''executeCode'' \<longrightarrow>
          get_prop object' ''reasoning'' = get_prop object ''reasoning'' \<longrightarrow>
            (fst (execute env' query') = Inl t \<longleftrightarrow> fst (execute env query) = Inl t))"
proof (intro conjI impI)
  assume texts: "js_String (get_prop object ''toolName'') = Inr name"
      "js_String (get_prop object ''toolDescription'') = Inr description"
      "js_String (get_prop object ''executeCode'') = Inr code"
      "js_String (get_prop object ''reasoning'') = Inr why"
      "code \<noteq> []" "name \<noteq> []"
      "includes_js code ''export default async function''"
  note run = execute_validated [OF assms texts refl]
  from run
  show calls: "snd (execute env query) =
              [\<lparr>req_tool =
                  \<lparr>tool_name = name, tool_description = description,
                   tool_inputSchema =
                     (if truthy (get_prop object ''inputSchema'')
                      then get_prop object ''inputSchema'' else JObj []),
                   tool_outputSchema =
                     (if truthy (get_prop object ''outputSchema'')
                      then get_prop object ''outputSchema'' else JObj []),
                   tool_execute = code\<rparr>,
                req_input = or_else (get_prop object ''input'') (JObj [])\<rparr>]"
    by (simp add: or_else_def)
  from run show "\<exists>r. fst (execute env query) = Inr r"
    by simp
  {
    assume "get_prop object ''inputSchema'' = JUndefined"
      and "get_prop object ''outputSchema'' = JUndefined"
    with calls
    show "snd (execute env query) =
                   [\<lparr>req_tool =
                       \<lparr>tool_name = name, tool_description = description,
                        tool_inputSchema = JObj [], tool_outputSchema = JObj [],
                        tool_execute = code\<rparr>,
                     req_input = or_else (get_prop object ''input'') (JObj [])\<rparr>]"
      by simp
  }
next
  assume "AI_GENERATE_OBJECT env' query' = Inr object'"
    and "get_prop object' ''toolName'' = get_prop object ''toolName''"
    and "get_prop object' ''toolDescription'' = get_prop object ''toolDescription''"
    and "get_prop object' ''executeCode'' = get_prop object ''executeCode''"
    and "get_prop object' ''reasoning'' = get_prop object ''reasoning''"
  from execute_throw_depends_on_texts [OF assms this]
  show "fst (execute env' query') = Inl t \<longleftrightarrow> fst (execute env query) = Inl t" .
qed

theorem schemas_default_when_falsy_witness:
  "AI_GENERATE_OBJECT (mock_env scenario_D_reply (Inr scenario_A_outcome)) ''list todos''
     = Inr scenario_D_reply
   \<and> js_String (get_prop scenario_D_reply ''toolName'') = Inr ''LIST''
   \<and> js_String (get_prop scenario_D_reply ''toolDescription'') = Inr ''d''
   \<and> js_String (get_prop scenario_D_reply ''executeCode'')
     = Inr ''export default async function (input, ctx) { return {todos:[]} }''
   \<and> js_String (get_prop scenario_D_reply ''reasoning'') = Inr ''r''
   \<and> get_prop scenario_D_reply ''inputSchema'' = JUndefined
   \<and> get_prop scenario_D_reply ''outputSchema'' = JUndefined
   \<and> snd (execute (mock_env scenario_D_reply (Inr scenario_A_outcome)) ''list todos'')
     = [scenario_A_request]
   \<and> (\<exists>r. fst (execute (mock_env scenario_D_reply (Inr scenario_A_outcome)) ''list todos'')
           = Inr r)
   \<and> AI_GENERATE_OBJECT (mock_env scenario_B_reply (Inl (NonError JNull))) ''other query''
     = Inr scenario_B_reply
   \<and> AI_GENERATE_OBJECT
       (mock_env
          (JObj [(''toolName'', JStr ''LIST''),
                 (''executeCode'', JStr ''function foo(){}''),
                 (''toolDescription'', JStr ''d''),
                 (''inputSchema'', JStr ''none''),
                 (''reasoning'', JStr ''r'')])
          (Inr scenario_A_outcome))
       ''list todos''
     = Inr (JObj [(''toolName'', JStr ''LIST''),
                 (''executeCode'', JStr ''function foo(){}''),
                 (''toolDescription'', JStr ''d''),
                 (''inputSchema'', JStr ''none''),
                 (''reasoning'', JStr ''r'')])
   \<and> fst (execute (mock_env scenario_B_reply (Inl (NonError JNull))) ''other query'')
     = Inl (ErrorInstance (JStr format_message))
   \<and> fst (execute
       (mock_env
          (JObj [(''toolName'', JStr ''LIST''),
                 (''executeCode'', JStr ''function foo(){}''),
                 (''toolDescription'', JStr ''d''),
                 (''inputSchema'', JStr ''none''),
                 (''reasoning'', JStr ''r'')])
          (Inr scenario_A_outcome))
       ''list todos'')
     = Inl (ErrorInstance (JStr format_message))"
proof -
  let ?D = "mock_env scenario_D_reply (Inr scenario_A_outcome)"
  let ?B = "mock_env scenario_B_reply (Inl (NonError JNull))"
  let ?reply = "JObj [(''toolName'', JStr ''LIST''),
                 (''executeCode'', JStr ''function foo(){}''),
                 (''toolDescription'', JStr ''d''),
                 (''inputSchema'', JStr ''none''),
                 (''reasoning'', JStr ''r'')]"
  let ?S = "mock_env ?reply (Inr scenario_A_outcome)"
  have d1: "AI_GENERATE_OBJECT ?D ''list todos'' = Inr scenario_D_reply"
    by (rule mock_env_generates)
  have d2: "js_String (get_prop scenario_D_reply ''toolName'') = Inr ''LIST''"
    and d3: "js_String (get_prop scenario_D_reply ''toolDescription'') = Inr ''d''"
    and d4: "js_String (get_prop scenario_D_reply ''executeCode'')
       = Inr ''export default async function (input, ctx) { return {todos:[]} }''"
    and d5: "js_String (get_prop scenario_D_reply ''reasoning'') = Inr ''r''"
    and d6: "get_prop scenario_D_reply ''inputSchema'' = JUndefined"
    and d7: "get_prop scenario_D_reply ''outputSchema'' = JUndefined"
    by (simp_all add: scenario_D_reply_def)
  from schemas_default_when_falsy [OF d1, where name = "''LIST''" and description = "''d''"
      and code = "''export default async function (input, ctx) { return {todos:[]} }''"
      and why = "''r''"]
    d2 d3 d4 d5 d6 d7 scenario_A_validated
  have d8: "snd (execute ?D ''list todos'') = [scenario_A_request]"
    and d9: "\<exists>r. fst (execute ?D ''list todos'') = Inr r"
    by (simp_all add: scenario_A_request_def scenario_D_reply_def or_else_def)
  have b1: "AI_GENERATE_OBJECT ?B ''other query'' = Inr scenario_B_reply"
    by (rule mock_env_generates)
  have s1: "AI_GENERATE_OBJECT ?S ''list todos'' = Inr ?reply"
    by (rule mock_env_generates)
  have same: "get_prop ?reply ''toolName'' = get_prop scenario_B_reply ''toolName''"
    "get_prop ?reply ''toolDescription'' = get_prop scenario_B_reply ''toolDescription''"
    "get_prop ?reply ''executeCode'' = get_prop scenario_B_reply ''executeCode''"
    "get_prop ?reply ''reasoning'' = get_prop scenario_B_reply ''reasoning''"
    by (simp_all add: scenario_B_reply_def)
  have b2: "fst (execute ?B ''other query'') = Inl (ErrorInstance (JStr format_message))"
    by (simp add: execute_def Let_def mock_env_def scenario_B_reply_def format_message_def)
  from schemas_default_when_falsy [OF b1, where env' = ?S and query' = "''list todos''"
      and object' = ?reply and t = "ErrorInstance (JStr format_message)"] s1 same b2
  have s2: "fst (execute ?S ''list todos'') = Inl (ErrorInstance (JStr format_message))"
    by blast
  from d1 d2 d3 d4 d5 d6 d7 d8 d9 b1 s1 b2 s2 show ?thesis by blast
qed

text \<open>
  C7. With the mocked reply of scenario A and an execution capability that returns
  \<^verbatim>\<open>{result: {todos: []}}\<close>, the entry point returns exactly the record
  \<^verbatim>\<open>{reasoning: "r", toolUri: "DYNAMIC::LIST", generatedInput: {}, result: {todos: []},
  error: undefined}\<close>; and in every record the entry point returns, \<^verbatim>\<open>toolUri\<close> is the
  fixed string \<open>DYNAMIC::\<close> followed by the tool name, the string that \<^verbatim>\<open>String\<close> made
  of the reply's \<^verbatim>\<open>toolName\<close>.
\<close>

theorem scenario_A_record:
  "fst (execute (mock_env scenario_A_reply (Inr scenario_A_outcome)) ''list todos'') =
     Inr \<lparr>reasoning = ''r'', toolUri = ''DYNAMIC::LIST'', generatedInput = JObj [],
          result = JObj [(''todos'', JArr [])], error = JUndefined\<rparr>
   \<and> (AI_GENERATE_OBJECT env query = Inr object \<longrightarrow> fst (execute env query) = Inr r \<longrightarrow>
        (\<exists>toolName. js_String (get_prop object ''toolName'') = Inr toolName
                   \<and> toolUri r = ''DYNAMIC::'' @ toolName))"
proof (intro conjI impI)
  show "fst (execute (mock_env scenario_A_reply (Inr scenario_A_outcome)) ''list todos'') =
     Inr \<lparr>reasoning = ''r'', toolUri = ''DYNAMIC::LIST'', generatedInput = JObj [],
          result = JObj [(''todos'', JArr [])], error = JUndefined\<rparr>"
    by (simp add: execute_def Let_def mock_env_def scenario_A_reply_def scenario_A_outcome_def
        or_else_def)
next
  assume gen: "AI_GENERATE_OBJECT env query = Inr object"
    and ret: "fst (execute env query) = Inr r"
  from execute_record_fields [OF gen ret]
  show "\<exists>toolName. js_String (get_prop object ''toolName'') = Inr toolName
                   \<and> toolUri r = ''DYNAMIC::'' @ toolName"
    by simp
qed

theorem scenario_A_record_witness:
  "AI_GENERATE_OBJECT (mock_env scenario_A_reply (Inl (ErrorInstance (JStr ''boom''))))
     ''list todos'' = Inr scenario_A_reply
   \<and> fst (execute (mock_env scenario_A_reply (Inl (ErrorInstance (JStr ''boom''))))
          ''list todos'') =
       Inr \<lparr>reasoning = ''r'', toolUri = ''DYNAMIC::LIST'', generatedInput = JObj [],
            result = JUndefined, error = JStr ''boom''\<rparr>
   \<and> (\<exists>toolName. js_String (get_prop scenario_A_reply ''toolName'') = Inr toolName
         \<and> toolUri \<lparr>reasoning = ''r'', toolUri = ''DYNAMIC::LIST'', generatedInput = JObj [],
                     result = JUndefined, error = JStr ''boom''\<rparr>
           = ''DYNAMIC::'' @ toolName)"
proof -
  let ?E = "mock_env scenario_A_reply (Inl (ErrorInstance (JStr ''boom'')))"
  let ?rec = "\<lparr>reasoning = ''r'', toolUri = ''DYNAMIC::LIST'', generatedInput = JObj [],
            result = JUndefined, error = JStr ''boom''\<rparr>"
  have gen: "AI_GENERATE_OBJECT ?E ''list todos'' = Inr scenario_A_reply"
    by (rule mock_env_generates)
  have ret: "fst (execute ?E ''list todos'') = Inr ?rec"
    by (simp add: execute_def Let_def mock_env_def scenario_A_reply_def or_else_def)
  from scenario_A_record [where env = ?E and query = "''list todos''"
      and object = scenario_A_reply and r = ?rec] gen ret
  have "\<exists>toolName. js_String (get_prop scenario_A_reply ''toolName'') = Inr toolName
         \<and> toolUri ?rec = ''DYNAMIC::'' @ toolName"
    by blast
  with gen ret show ?thesis by blast
qed

text \<open>
  C8, as stated, fails: a reply whose \<^verbatim>\<open>executeCode\<close> contains the required declaration
  and whose \<^verbatim>\<open>toolName\<close> is a non-empty string, but whose \<^verbatim>\<open>toolDescription\<close> is an
  object with an own property \<open>toString\<close>, makes \<^verbatim>\<open>String\<close> of line 132 throw a
  \<^verbatim>\<open>TypeError\<close>: validation does not succeed and the execution capability is handed
  nothing.
\<close>

theorem unconvertible_description_counterexample:
  "includes_js ''export default async function (input, ctx) { return {todos:[]} }''
     required_prefix
   \<and> execute
     (mock_env
        (JObj [(''toolName'', JStr ''LIST''),
               (''executeCode'',
                  JStr ''export default async function (input, ctx) { return {todos:[]} }''),
               (''toolDescription'', JObj [(''toString'', JStr ''x'')]),
               (''inputSchema'', JObj []),
               (''outputSchema'', JObj []),
               (''input'', JObj []),
               (''reasoning'', JStr ''r'')])
        (Inr scenario_A_outcome))
     ''list todos'' =
     (Inl (ErrorInstance (JStr ''Cannot convert object to primitive value'')), [])"
  by (simp add: execute_def Let_def mock_env_def cannot_convert_def required_prefix_def)

text \<open>
  C8, amended. For every reply whose \<^verbatim>\<open>executeCode\<close> is a string containing the required
  entry-point declaration, whose \<^verbatim>\<open>toolName\<close> is a non-empty string and whose
  \<^verbatim>\<open>toolDescription\<close> and \<^verbatim>\<open>reasoning\<close> \<^verbatim>\<open>String\<close> converts, validation succeeds (a
  record is returned, nothing is thrown) and the execution capability is handed, once, a
  tool whose source text is that very string.
\<close>

theorem validated_code_is_unchanged:
  assumes "AI_GENERATE_OBJECT env query = Inr object"
    and "get_prop object ''executeCode'' = JStr code"
    and "includes_js code required_prefix"
    and "get_prop object ''toolName'' = JStr name"
    and "name \<noteq> []"
    and "js_String (get_prop object ''toolDescription'') = Inr description"
    and "js_String (get_prop object ''reasoning'') = Inr why"
  shows "snd (execute env query) =
           [\<lparr>req_tool =
               \<lparr>tool_name = name, tool_description = description,
                tool_inputSchema = or_else (get_prop object ''inputSchema'') (JObj []),
                tool_outputSchema = or_else (get_prop object ''outputSchema'') (JObj []),
                tool_execute = code\<rparr>,
             req_input = or_else (get_prop object ''input'') (JObj [])\<rparr>]
       \<and> (\<exists>r. fst (execute env query) = Inr r)"
proof -
  have marker: "includes_js code ''export default async function''"
    using assms(3) by (rule required_prefix_has_marker)
  then have nonempty: "code \<noteq> []"
    using includes_js_nonempty by fastforce
  have texts: "js_String (get_prop object ''toolName'') = Inr name"
      "js_String (get_prop object ''executeCode'') = Inr code"
    using assms(2,4) by simp_all
  from execute_validated [OF assms(1) texts(1) assms(6) texts(2) assms(7) nonempty assms(5)
      marker refl]
  show ?thesis by simp
qed

theorem validated_code_is_unchanged_witness:
  "AI_GENERATE_OBJECT (mock_env scenario_A_reply (Inr scenario_A_outcome)) ''list todos''
     = Inr scenario_A_reply
   \<and> get_prop scenario_A_reply ''executeCode''
     = JStr ''export default async function (input, ctx) { return {todos:[]} }''
   \<and> includes_js ''export default async function (input, ctx) { return {todos:[]} }''
        required_prefix
   \<and> get_prop scenario_A_reply ''toolName'' = JStr ''LIST''
   \<and> ''LIST'' \<noteq> []
   \<and> js_String (get_prop scenario_A_reply ''toolDescription'') = Inr ''d''
   \<and> js_String (get_prop scenario_A_reply ''reasoning'') = Inr ''r''
   \<and> snd (execute (mock_env scenario_A_reply (Inr scenario_A_outcome)) ''list todos'')
     = [scenario_A_request]
   \<and> tool_execute (req_tool scenario_A_request)
     = ''export default async function (input, ctx) { return {todos:[]} }''
   \<and> (\<exists>r. fst (execute (mock_env scenario_A_reply (Inr scenario_A_outcome)) ''list todos'')
           = Inr r)"
proof -
  let ?A = "mock_env scenario_A_reply (Inr scenario_A_outcome)"
  have h1: "AI_GENERATE_OBJECT ?A ''list todos'' = Inr scenario_A_reply"
    by (rule mock_env_generates)
  have h2: "get_prop scenario_A_reply ''executeCode''
     = JStr ''export default async function (input, ctx) { return {todos:[]} }''"
    by (simp add: scenario_A_reply_def)
  have h3: "includes_js ''export default async function (input, ctx) { return {todos:[]} }''
        required_prefix"
    by (simp add: required_prefix_def)
  have h4: "get_prop scenario_A_reply ''toolName'' = JStr ''LIST''"
    by (simp add: scenario_A_reply_def)
  have h5: "''LIST'' \<noteq> []" by simp
  note h6 = scenario_A_texts(2)
  note h7 = scenario_A_texts(4)
  from validated_code_is_unchanged [OF h1 h2 h3 h4 h5 h6 h7]
  have c1: "snd (execute ?A ''list todos'') = [scenario_A_request]"
    and c2: "\<exists>r. fst (execute ?A ''list todos'') = Inr r"
    by (simp_all add: scenario_A_builds_request [symmetric])
  have c3: "tool_execute (req_tool scenario_A_request)
     = ''export default async function (input, ctx) { return {todos:[]} }''"
    by (simp add: scenario_A_request_def)
  from h1 h2 h3 h4 h5 h6 h7 c1 c2 c3 show ?thesis by blast
qed

text \<open>
  C9, as stated, fails: for a reply without \<^verbatim>\<open>reasoning\<close> and \<^verbatim>\<open>toolDescription\<close>,
  \<^verbatim>\<open>String(undefined)\<close> of lines 132 and 137 is the text \<open>undefined\<close>, not the empty
  string: the record's \<^verbatim>\<open>reasoning\<close> and the tool's \<^verbatim>\<open>description\<close> are both
  \<open>undefined\<close>.
\<close>

theorem missing_reasoning_counterexample:
  "execute
     (mock_env
        (JObj [(''toolName'', JStr ''LIST''),
               (''executeCode'',
                  JStr ''export default async function (input, ctx) { return {todos:[]} }''),
               (''inputSchema'', JObj []),
               (''outputSchema'', JObj []),
               (''input'', JObj [])])
        (Inr scenario_A_outcome))
     ''list todos'' =
     (Inr \<lparr>reasoning = ''undefined'', toolUri = ''DYNAMIC::LIST'', generatedInput = JObj [],
           result = JObj [(''todos'', JArr [])], error = JUndefined\<rparr>,
      [\<lparr>req_tool = \<lparr>tool_name = ''LIST'', tool_description = ''undefined'',
                    tool_inputSchema = JObj [], tool_outputSchema = JObj [],
                    tool_execute =
                      ''export default async function (input, ctx) { return {todos:[]} }''\<rparr>,
        req_input = JObj []\<rparr>])
   \<and> ''undefined'' \<noteq> []"
  by (simp add: execute_def Let_def mock_env_def scenario_A_outcome_def or_else_def)

text \<open>
  C9, amended. For every reply that passes the conversions and the two checks, \<^verbatim>\<open>input\<close>
  is replaced by \<^verbatim>\<open>{}\<close> when it is missing or otherwise falsy and is passed on unchanged
  otherwise, to the capability and into the record; \<^verbatim>\<open>reasoning\<close> and
  \<^verbatim>\<open>toolDescription\<close> are converted with \<^verbatim>\<open>String\<close>, which keeps a string as it is
  and substitutes no default for a missing field (it becomes the text \<open>undefined\<close>). When
  \<^verbatim>\<open>String\<close> cannot convert one of the two, the entry point throws its \<^verbatim>\<open>TypeError\<close>
  and the execution capability is not called. Nothing else is validated, and \<^verbatim>\<open>input\<close>
  is never checked against \<^verbatim>\<open>inputSchema\<close>: two replies that differ in their inputs and
  schemas only throw the same value, or neither throws.
\<close>

theorem input_and_texts_are_coerced:
  assumes "AI_GENERATE_OBJECT env query = Inr object"
  shows "(js_String (get_prop object ''toolName'') = Inr name \<longrightarrow>
          js_String (get_prop object ''toolDescription'') = Inr description \<longrightarrow>
          js_String (get_prop object ''executeCode'') = Inr code \<longrightarrow>
          js_String (get_prop object ''reasoning'') = Inr why \<longrightarrow>
          code \<noteq> [] \<longrightarrow> name \<noteq> [] \<longrightarrow>
          includes_js code ''export default async function'' \<longrightarrow>
            (\<exists>r. execute env query =
                   (Inr r,
                    [\<lparr>req_tool =
                        \<lparr>tool_name = name, tool_description = description,
                         tool_inputSchema = or_else (get_prop object ''inputSchema'') (JObj []),
                         tool_outputSchema = or_else (get_prop object ''outputSchema'') (JObj []),
                         tool_execute = code\<rparr>,
                      req_input =
                        (if truthy (get_prop object ''input'') then get_prop object ''input''
                         else JObj [])\<rparr>])
                 \<and> generatedInput r =
                     (if truthy (get_prop object ''input'') then get_prop object ''input''
                      else JObj [])
                 \<and> reasoning r = why)
            \<and> (get_prop object ''reasoning'' = JUndefined \<longrightarrow> why = ''undefined'')
            \<and> (get_prop object ''toolDescription'' = JUndefined \<longrightarrow>
                  description = ''undefined'')
            \<and> (get_prop object ''reasoning'' = JStr s \<longrightarrow> why = s)
            \<and> (get_prop object ''toolDescription'' = JStr d \<longrightarrow> description = d))
       \<and> (js_String (get_prop object ''toolDescription'') = Inl e
            \<or> js_String (get_prop object ''reasoning'') = Inl e \<longrightarrow>
            execute env query = (Inl cannot_convert, []))
       \<and> (AI_GENERATE_OBJECT env' query' = Inr object' \<longrightarrow>
          get_prop object' ''toolName'' = get_prop object ''toolName'' \<longrightarrow>
          get_prop object' ''toolDescription'' = get_prop object ''toolDescription'' \<longrightarrow>
          get_prop object' ''executeCode'' = get_prop object ''executeCode'' \<longrightarrow>
          get_prop object' ''reasoning'' = get_prop object ''reasoning'' \<longrightarrow>
            (fst (execute env' query') = Inl t \<longleftrightarrow> fst (execute env query) = Inl t))"
proof (intro conjI impI)
  assume texts: "js_String (get_prop object ''toolName'') = Inr name"
      "js_String (get_prop object ''toolDescription'') = Inr description"
      "js_String (get_prop object ''executeCode'') = Inr code"
      "js_String (get_prop object ''reasoning'') = Inr why"
      "code \<noteq> []" "name \<noteq> []"
      "includes_js code ''export default async function''"
  from execute_validated [OF assms texts refl]
  show "\<exists>r. execute env query =
                   (Inr r,
                    [\<lparr>req_tool =
                        \<lparr>tool_name = name, tool_description = description,
                         tool_inputSchema = or_else (get_prop object ''inputSchema'') (JObj []),
                         tool_outputSchema = or_else (get_prop object ''outputSchema'') (JObj []),
                         tool_execute = code\<rparr>,
                      req_input =
                        (if truthy (get_prop object ''input'') then get_prop object ''input''
                         else JObj [])\<rparr>])
                 \<and> generatedInput r =
                     (if truthy (get_prop object ''input'') then get_prop object ''input''
                      else JObj [])
                 \<and> reasoning r = why"
    by (simp add: or_else_def)
  {
    assume "get_prop object ''reasoning'' = JUndefined"
    with texts(4) show "why = ''undefined''" by simp
  next
    assume "get_prop object ''toolDescription'' = JUndefined"
    with texts(2) show "description = ''undefined''" by simp
  next
    assume "get_prop object ''reasoning'' = JStr s"
    with texts(4) show "why = s" by simp
  next
    assume "get_prop object ''toolDescription'' = JStr d"
    with texts(2) show "description = d" by simp
  }
next
  assume "js_String (get_prop object ''toolDescription'') = Inl e
            \<or> js_String (get_prop object ''reasoning'') = Inl e"
  then have "js_String (get_prop object ''toolName'') = Inl e
         \<or> js_String (get_prop object ''toolDescription'') = Inl e
         \<or> js_String (get_prop object ''executeCode'') = Inl e
         \<or> js_String (get_prop object ''reasoning'') = Inl e"
    by blast
  from execute_unconvertible [OF assms this]
  show "execute env query = (Inl cannot_convert, [])" .
next
  assume "AI_GENERATE_OBJECT env' query' = Inr object'"
    and "get_prop object' ''toolName'' = get_prop object ''toolName''"
    and "get_prop object' ''toolDescription'' = get_prop object ''toolDescription''"
    and "get_prop object' ''executeCode'' = get_prop object ''executeCode''"
    and "get_prop object' ''reasoning'' = get_prop object ''reasoning''"
  from execute_throw_depends_on_texts [OF assms this]
  show "fst (execute env' query') = Inl t \<longleftrightarrow> fst (execute env query) = Inl t" .
qed

theorem input_and_texts_are_coerced_witness:
  "AI_GENERATE_OBJECT
     (mock_env
        (JObj [(''toolName'', JStr ''LIST''),
               (''executeCode'',
                  JStr ''export default async function (input, ctx) { return {todos:[]} }'')])
        (Inr scenario_A_outcome))
     ''list todos'' =
     Inr (JObj [(''toolName'', JStr ''LIST''),
               (''executeCode'',
                  JStr ''export default async function (input, ctx) { return {todos:[]} }'')])
   \<and> (\<exists>r. execute
       (mock_env
          (JObj [(''toolName'', JStr ''LIST''),
                 (''executeCode'',
                    JStr ''export default async function (input, ctx) { return {todos:[]} }'')])
          (Inr scenario_A_outcome))
       ''list todos'' =
       (Inr r,
        [\<lparr>req_tool = \<lparr>tool_name = ''LIST'', tool_description = ''undefined'',
                      tool_inputSchema = JObj [], tool_outputSchema = JObj [],
                      tool_execute =
                        ''export default async function (input, ctx) { return {todos:[]} }''\<rparr>,
          req_input = JObj []\<rparr>])
       \<and> generatedInput r = JObj [] \<and> reasoning r = ''undefined'')
   \<and> AI_GENERATE_OBJECT
       (mock_env scenario_A_reply
          (Inr \<lparr>res_result = JNum ''7'', res_error = JNum ''0''\<rparr>))
       ''list todos'' = Inr scenario_A_reply
   \<and> get_prop scenario_A_reply ''reasoning'' = JStr ''r''
   \<and> get_prop scenario_A_reply ''toolDescription'' = JStr ''d''
   \<and> (\<exists>r. execute
       (mock_env scenario_A_reply
          (Inr \<lparr>res_result = JNum ''7'', res_error = JNum ''0''\<rparr>))
       ''list todos'' = (Inr r, [scenario_A_request])
       \<and> generatedInput r = JObj [] \<and> reasoning r = ''r'')
   \<and> AI_GENERATE_OBJECT
       (mock_env
          (JObj [(''toolName'', JStr ''LIST''),
                 (''executeCode'', JStr []),
                 (''reasoning'', JArr [JNum ''1'', JObj [(''toString'', JNull)]])])
          (Inr scenario_A_outcome))
       ''list todos'' =
       Inr (JObj [(''toolName'', JStr ''LIST''),
                 (''executeCode'', JStr []),
                 (''reasoning'', JArr [JNum ''1'', JObj [(''toString'', JNull)]])])
   \<and> js_String (JArr [JNum ''1'', JObj [(''toString'', JNull)]]) = Inl cannot_convert
   \<and> execute
       (mock_env
          (JObj [(''toolName'', JStr ''LIST''),
                 (''executeCode'', JStr []),
                 (''reasoning'', JArr [JNum ''1'', JObj [(''toString'', JNull)]])])
          (Inr scenario_A_outcome))
       ''list todos'' = (Inl cannot_convert, [])"
proof -
  let ?reply = "JObj [(''toolName'', JStr ''LIST''),
               (''executeCode'',
                  JStr ''export default async function (input, ctx) { return {todos:[]} }'')]"
  let ?U = "mock_env ?reply (Inr scenario_A_outcome)"
  let ?A = "mock_env scenario_A_reply (Inr \<lparr>res_result = JNum ''7'', res_error = JNum ''0''\<rparr>)"
  let ?bad = "JObj [(''toolName'', JStr ''LIST''),
                 (''executeCode'', JStr []),
                 (''reasoning'', JArr [JNum ''1'', JObj [(''toString'', JNull)]])]"
  let ?X = "mock_env ?bad (Inr scenario_A_outcome)"
  have u1: "AI_GENERATE_OBJECT ?U ''list todos'' = Inr ?reply"
    by (rule mock_env_generates)
  have u2: "js_String (get_prop ?reply ''toolName'') = Inr ''LIST''"
    and u3: "js_String (get_prop ?reply ''toolDescription'') = Inr ''undefined''"
    and u4: "js_String (get_prop ?reply ''executeCode'')
       = Inr ''export default async function (input, ctx) { return {todos:[]} }''"
    and u5: "js_String (get_prop ?reply ''reasoning'') = Inr ''undefined''"
    by simp_all
  from input_and_texts_are_coerced [OF u1, where name = "''LIST''"
      and description = "''undefined''"
      and code = "''export default async function (input, ctx) { return {todos:[]} }''"
      and why = "''undefined''"]
    u2 u3 u4 u5 scenario_A_validated
  have u6: "\<exists>r. execute ?U ''list todos'' =
       (Inr r,
        [\<lparr>req_tool = \<lparr>tool_name = ''LIST'', tool_description = ''undefined'',
                      tool_inputSchema = JObj [], tool_outputSchema = JObj [],
                      tool_execute =
                        ''export default async function (input, ctx) { return {todos:[]} }''\<rparr>,
          req_input = JObj []\<rparr>])
       \<and> generatedInput r = JObj [] \<and> reasoning r = ''undefined''"
    by (simp add: or_else_def)
  have a1: "AI_GENERATE_OBJECT ?A ''list todos'' = Inr scenario_A_reply"
    by (rule mock_env_generates)
  have a2: "get_prop scenario_A_reply ''reasoning'' = JStr ''r''"
    and a3: "get_prop scenario_A_reply ''toolDescription'' = JStr ''d''"
    by (simp_all add: scenario_A_reply_def)
  from input_and_texts_are_coerced [OF a1, where name = "''LIST''" and description = "''d''"
      and code = "''export default async function (input, ctx) { return {todos:[]} }''"
      and why = "''r''"]
    scenario_A_texts scenario_A_validated
  have a4: "\<exists>r. execute ?A ''list todos'' = (Inr r, [scenario_A_request])
       \<and> generatedInput r = JObj [] \<and> reasoning r = ''r''"
    by (simp add: scenario_A_request_def scenario_A_reply_def or_else_def)
  have x1: "AI_GENERATE_OBJECT ?X ''list todos'' = Inr ?bad"
    by (rule mock_env_generates)
  have x2: "js_String (JArr [JNum ''1'', JObj [(''toString'', JNull)]]) = Inl cannot_convert"
    by simp
  then have x3: "js_String (get_prop ?bad ''reasoning'') = Inl cannot_convert"
    by simp
  from input_and_texts_are_coerced [OF x1, where e = cannot_convert] x3
  have x4: "execute ?X ''list todos'' = (Inl cannot_convert, [])"
    by blast
  from u1 u6 a1 a2 a3 a4 x1 x2 x4 show ?thesis by blast
qed

text \<open>
  C10. When a reply passes the conversions and the two checks and the execution capability,
  called with the request built from it, resolves to an outcome whose \<^verbatim>\<open>error\<close> is falsy
  (absent, \<^verbatim>\<open>null\<close>, the empty string, zero, ...), the entry point returns the record of
  the success branch: \<^verbatim>\<open>error\<close> is \<^verbatim>\<open>undefined\<close> and \<^verbatim>\<open>result\<close> is the outcome's
  \<^verbatim>\<open>result\<close>, unchanged. So an error equal to the empty string is reported as success,
  and an outcome with neither field gives a record with neither.
\<close>

theorem falsy_error_is_success:
  assumes "AI_GENERATE_OBJECT env query = Inr object"
    and "js_String (get_prop object ''toolName'') = Inr name"
    and "js_String (get_prop object ''toolDescription'') = Inr description"
    and "js_String (get_prop object ''executeCode'') = Inr code"
    and "js_String (get_prop object ''reasoning'') = Inr why"
    and "code \<noteq> []" and "name \<noteq> []"
    and "includes_js code ''export default async function''"
    and "request =
      \<lparr>req_tool = \<lparr>tool_name = name, tool_description = description,
                    tool_inputSchema = or_else (get_prop object ''inputSchema'') (JObj []),
                    tool_outputSchema = or_else (get_prop object ''outputSchema'') (JObj []),
                    tool_execute = code\<rparr>,
        req_input = or_else (get_prop object ''input'') (JObj [])\<rparr>"
    and "DECO_TOOL_RUN_TOOL env request = Inr toolResult"
    and "\<not> truthy (res_error toolResult)"
  shows "execute env query =
           (Inr \<lparr>reasoning = why,
                 toolUri = ''DYNAMIC::'' @ name,
                 generatedInput = or_else (get_prop object ''input'') (JObj []),
                 result = res_result toolResult,
                 error = JUndefined\<rparr>,
            [request])"
  using execute_validated [OF assms(1-9)] assms(10,11) by simp

theorem falsy_error_is_success_witness:
  "AI_GENERATE_OBJECT
     (mock_env scenario_A_reply (Inr \<lparr>res_result = JNum ''7'', res_error = JNum ''0''\<rparr>))
     ''list todos'' = Inr scenario_A_reply
   \<and> DECO_TOOL_RUN_TOOL
       (mock_env scenario_A_reply (Inr \<lparr>res_result = JNum ''7'', res_error = JNum ''0''\<rparr>))
       scenario_A_request = Inr \<lparr>res_result = JNum ''7'', res_error = JNum ''0''\<rparr>
   \<and> \<not> truthy (res_error \<lparr>res_result = JNum ''7'', res_error = JNum ''0''\<rparr>)
   \<and> execute
       (mock_env scenario_A_reply (Inr \<lparr>res_result = JNum ''7'', res_error = JNum ''0''\<rparr>))
       ''list todos'' =
       (Inr \<lparr>reasoning = ''r'', toolUri = ''DYNAMIC::LIST'', generatedInput = JObj [],
             result = JNum ''7'', error = JUndefined\<rparr>,
        [scenario_A_request])
   \<and> AI_GENERATE_OBJECT
       (mock_env scenario_A_reply (Inr \<lparr>res_result = JUndefined, res_error = JStr []\<rparr>))
       ''list todos'' = Inr scenario_A_reply
   \<and> DECO_TOOL_RUN_TOOL
       (mock_env scenario_A_reply (Inr \<lparr>res_result = JUndefined, res_error = JStr []\<rparr>))
       scenario_A_request = Inr \<lparr>res_result = JUndefined, res_error = JStr []\<rparr>
   \<and> \<not> truthy (res_error \<lparr>res_result = JUndefined, res_error = JStr []\<rparr>)
   \<and> execute
       (mock_env scenario_A_reply (Inr \<lparr>res_result = JUndefined, res_error = JStr []\<rparr>))
       ''list todos'' =
       (Inr \<lparr>reasoning = ''r'', toolUri = ''DYNAMIC::LIST'', generatedInput = JObj [],
             result = JUndefined, error = JUndefined\<rparr>,
        [scenario_A_request])"
proof -
  let ?seven = "\<lparr>res_result = JNum ''7'', res_error = JNum ''0''\<rparr>"
  let ?none = "\<lparr>res_result = JUndefined, res_error = JStr []\<rparr>"
  let ?S = "mock_env scenario_A_reply (Inr ?seven)"
  let ?N = "mock_env scenario_A_reply (Inr ?none)"
  have s1: "AI_GENERATE_OBJECT ?S ''list todos'' = Inr scenario_A_reply"
    by (rule mock_env_generates)
  have s2: "DECO_TOOL_RUN_TOOL ?S scenario_A_request = Inr ?seven"
    by (rule mock_env_runs)
  have s3: "\<not> truthy (res_error ?seven)"
    by simp
  from falsy_error_is_success [OF s1 scenario_A_texts scenario_A_validated
      scenario_A_builds_request s2 s3]
  have s4: "execute ?S ''list todos'' =
       (Inr \<lparr>reasoning = ''r'', toolUri = ''DYNAMIC::LIST'', generatedInput = JObj [],
             result = JNum ''7'', error = JUndefined\<rparr>,
        [scenario_A_request])"
    by (simp add: scenario_A_reply_def or_else_def)
  have n1: "AI_GENERATE_OBJECT ?N ''list todos'' = Inr scenario_A_reply"
    by (rule mock_env_generates)
  have n2: "DECO_TOOL_RUN_TOOL ?N scenario_A_request = Inr ?none"
    by (rule mock_env_runs)
  have n3: "\<not> truthy (res_error ?none)"
    by simp
  from falsy_error_is_success [OF n1 scenario_A_texts scenario_A_validated
      scenario_A_builds_request n2 n3]
  have n4: "execute ?N ''list todos'' =
       (Inr \<lparr>reasoning = ''r'', toolUri = ''DYNAMIC::LIST'', generatedInput = JObj [],
             result = JUndefined, error = JUndefined\<rparr>,
        [scenario_A_request])"
    by (simp add: scenario_A_reply_def or_else_def)
  from s1 s2 s3 s4 n1 n2 n3 n4 show ?thesis by blast
qed

end
